theory Spec2Isabelle
  imports Complex_Main
begin

section \<open>Values and schemas\<close>

text \<open>
  The generator in \<^verbatim>\<open>generators/skill.ts\<close> builds example payloads as plain JavaScript
  values. Numbers are only passed around (never added or compared), so they are carried
  as rationals; objects are association lists holding the own properties in the order in
  which they were assigned. A JavaScript string is carried in UTF-8, one \<open>char\<close> for each
  byte: the code searches and splits at ASCII text only, which UTF-8 preserves, and the
  one operation that looks at other letters, \<^verbatim>\<open>toLowerCase\<close>, is a built-in taken as a
  parameter.
\<close>

datatype jsval =
    JNull
  | JBool bool
  | JNum rat
  | JStr string
  | JArr "jsval list"
  | JObj "(string \<times> jsval) list"

text \<open>JavaScript truthiness, as used by \<^verbatim>\<open>itemExample ? [itemExample] : []\<close>.\<close>

fun truthy :: "jsval \<Rightarrow> bool" where
  "truthy JNull = False"
| "truthy (JBool b) = b"
| "truthy (JNum n) = (n \<noteq> 0)"
| "truthy (JStr s) = (s \<noteq> [])"
| "truthy (JArr xs) = True"
| "truthy (JObj kvs) = True"

text \<open>
  \<^verbatim>\<open>OpenApiSchema\<close>: every field is optional. \<^verbatim>\<open>properties\<close> is the list of own
  properties in the order in which \<^verbatim>\<open>Object.entries\<close> enumerates them (integer-like names
  first, in ascending order, then the other names as they were declared).
\<close>

datatype schema = Schema
  (s_ref: "string option")
  (s_type: "string option")
  (s_properties: "(string \<times> schema) list option")
  (s_required: "string list option")
  (s_items: "schema option")
  (s_enum: "jsval list option")
  (s_format: "string option")
  (s_description: "string option")
  (s_example: "jsval option")
  (s_minimum: "rat option")

text \<open>
  The named-schema table \<^verbatim>\<open>Record<string, OpenApiSchema>\<close>: the own properties of a plain
  object, whose prototype is \<^verbatim>\<open>Object.prototype\<close>.
\<close>

type_synonym schemas = "(string \<times> schema) list"

text \<open>
  \<^verbatim>\<open>schemas[name]\<close> reads an own property first and then along the prototype chain. The
  names below are the properties of \<^verbatim>\<open>Object.prototype\<close>; what is found under them (a
  built-in function, or \<^verbatim>\<open>Object.prototype\<close> itself under \<^verbatim>\<open>__proto__\<close>) is truthy and has
  none of the fields of a schema, so it reads as the schema without any field.
\<close>

definition object_prototype_keys :: "string list" where
  "object_prototype_keys =
    [''constructor'', ''__defineGetter__'', ''__defineSetter__'', ''hasOwnProperty'',
     ''__lookupGetter__'', ''__lookupSetter__'', ''isPrototypeOf'', ''propertyIsEnumerable'',
     ''toString'', ''valueOf'', ''__proto__'', ''toLocaleString'']"

definition no_fields :: schema where
  "no_fields = Schema None None None None None None None None None None"

definition lookup_schema :: "schemas \<Rightarrow> string \<Rightarrow> schema option" where
  "lookup_schema schemas name =
    (case map_of schemas name of
       Some schema \<Rightarrow> Some schema
     | None \<Rightarrow> if name \<in> set object_prototype_keys then Some no_fields else None)"

subsection \<open>String helpers\<close>

text \<open>A string option is truthy when it is present and not empty.\<close>

fun truthy_str :: "string option \<Rightarrow> bool" where
  "truthy_str None = False"
| "truthy_str (Some s) = (s \<noteq> [])"

definition upper_chars :: string where
  "upper_chars = ''ABCDEFGHIJKLMNOPQRSTUVWXYZ''"

definition lower_chars :: string where
  "lower_chars = ''abcdefghijklmnopqrstuvwxyz''"

definition is_upper :: "char \<Rightarrow> bool" where
  "is_upper c = (c \<in> set upper_chars)"

definition is_lower :: "char \<Rightarrow> bool" where
  "is_lower c = (c \<in> set lower_chars)"

definition lower_char :: "char \<Rightarrow> char" where
  "lower_char c = (case map_of (zip upper_chars lower_chars) c of Some l \<Rightarrow> l | None \<Rightarrow> c)"

text \<open>Lowercasing of text that is ASCII throughout.\<close>

definition ascii_lower :: "string \<Rightarrow> string" where
  "ascii_lower s = map lower_char s"

definition is_ascii :: "string \<Rightarrow> bool" where
  "is_ascii s = list_all (\<lambda>c. (of_char c :: nat) < 128) s"

definition startsWith :: "string \<Rightarrow> string \<Rightarrow> bool" where
  "startsWith s p = (take (length p) s = p)"

text \<open>\<^verbatim>\<open>s.includes(sub)\<close>: \<^verbatim>\<open>sub\<close> occurs somewhere in \<^verbatim>\<open>s\<close>.\<close>

fun str_includes :: "string \<Rightarrow> string \<Rightarrow> bool" where
  "str_includes [] sub = (sub = [])"
| "str_includes (c # cs) sub = (startsWith (c # cs) sub \<or> str_includes cs sub)"

text \<open>\<^verbatim>\<open>ref.split('/').pop()\<close>: the text after the last slash.\<close>

definition split_pop :: "string \<Rightarrow> string" where
  "split_pop r = rev (takeWhile (\<lambda>c. c \<noteq> CHR ''/'') (rev r))"

text \<open>
  \<^verbatim>\<open>obj[k] = v\<close>: an existing key keeps its place and gets the new value, a new key is
  appended.
\<close>

fun assign :: "(string \<times> 'v) list \<Rightarrow> string \<Rightarrow> 'v \<Rightarrow> (string \<times> 'v) list" where
  "assign [] k v = [(k, v)]"
| "assign ((k', v') # kvs) k v = (if k' = k then (k, v) # kvs else (k', v') # assign kvs k v)"

text \<open>
  \<^verbatim>\<open>obj[k] = v\<close> on an object created by the literal \<^verbatim>\<open>{}\<close>: the name \<^verbatim>\<open>__proto__\<close> is
  an accessor inherited from \<^verbatim>\<open>Object.prototype\<close>, and assigning to it creates no own
  property (it replaces the prototype when \<^verbatim>\<open>v\<close> is an object and does nothing
  otherwise).
\<close>

definition set_field :: "(string \<times> 'v) list \<Rightarrow> string \<Rightarrow> 'v \<Rightarrow> (string \<times> 'v) list" where
  "set_field obj k v = (if k = ''__proto__'' then obj else assign obj k v)"

section \<open>Collaborators outside this module\<close>

text \<open>
  \<^verbatim>\<open>skill.ts\<close> imports the keyword extractors and \<^verbatim>\<open>schemaToTypeScript\<close> from the
  parsers and uses the built-ins \<^verbatim>\<open>String.prototype.toLowerCase\<close> (which follows the
  Unicode case mappings), \<^verbatim>\<open>JSON.stringify(v, null, 2)\<close> and string interpolation of
  arbitrary values. They are pure functions of their arguments and are taken as
  parameters.
\<close>

record parameter =
  p_name :: string
  p_in :: string
  p_required :: "bool option"
  p_schema :: "schema option"
  p_description :: "string option"

type_synonym content = "(string \<times> schema option) list"

record request_body =
  rb_content :: "content option"
  rb_required :: "bool option"

record response =
  rs_content :: "content option"
  rs_description :: "string option"

text \<open>\<^verbatim>\<open>ParsedOpenApiOperation\<close>; \<^verbatim>\<open>security\<close> is the optional list of requirement objects.\<close>

record operation =
  o_operationId :: string
  o_method :: string
  o_path :: string
  o_summary :: "string option"
  o_description :: "string option"
  o_parameters :: "parameter list option"
  o_requestBody :: "request_body option"
  o_responses :: "(string \<times> response) list option"
  o_security :: "(string \<times> string list) list list option"

record externals =
  extractIntentKeywords :: "string \<Rightarrow> string \<Rightarrow> string list"
  extractOpenApiIntentKeywords :: "operation \<Rightarrow> string list"
  schemaToTypeScript :: "schema \<Rightarrow> string \<Rightarrow> schemas \<Rightarrow> string"
  toLowerCase :: "string \<Rightarrow> string"
  json_stringify :: "jsval \<Rightarrow> string"
  to_string :: "jsval \<Rightarrow> string"

text \<open>
  On text that is ASCII throughout, the built-in lowercases the letters \<^verbatim>\<open>A\<close> to \<^verbatim>\<open>Z\<close>
  and leaves every other character as it is.
\<close>

definition lowers_ascii :: "externals \<Rightarrow> bool" where
  "lowers_ascii X = (\<forall>s. is_ascii s \<longrightarrow> toLowerCase X s = ascii_lower s)"

text \<open>
  The optional \<^verbatim>\<open>intentGenerator.generate(id, description)\<close> is asynchronous and may reach
  the network: it reads and changes an outside world \<open>'w\<close> and may reject. A rejection
  propagates out of the generator.
\<close>

datatype error = Rejected string

type_synonym 'w intent_generator = "string \<Rightarrow> string \<Rightarrow> 'w \<Rightarrow> (error + string list) \<times> 'w"

record 'w convert_options =
  apiName :: "string option"
  intentGenerator :: "'w intent_generator option"

section \<open>Example synthesis\<close>

text \<open>
  \<open>ref_name\<close> is \<^verbatim>\<open>schema.$ref.split('/').pop() || ''\<close> under the guard
  \<^verbatim>\<open>if (schema.$ref)\<close>: it is defined exactly when the reference is present and not
  the empty string.
\<close>

definition ref_name :: "schema \<Rightarrow> string option" where
  "ref_name schema =
    (case s_ref schema of
       None \<Rightarrow> None
     | Some r \<Rightarrow> if r = [] then None else Some (split_pop r))"

text \<open>\<^verbatim>\<open>schema.enum && Array.isArray(schema.enum) && schema.enum.length > 0\<close>, then \<^verbatim>\<open>schema.enum[0]\<close>.\<close>

definition first_enum :: "schema \<Rightarrow> jsval option" where
  "first_enum schema =
    (case s_enum schema of
       Some (v # vs) \<Rightarrow> Some v
     | _ \<Rightarrow> None)"

text \<open>\<^verbatim>\<open>schema.required || []\<close>, the names in \<^verbatim>\<open>new Set(...)\<close>.\<close>

definition required_of :: "schema \<Rightarrow> string list" where
  "required_of schema = (case s_required schema of Some r \<Rightarrow> r | None \<Rightarrow> [])"

text \<open>
  The three non-trivial arms of the final \<^verbatim>\<open>switch (schema.type)\<close>. The guard
  \<^verbatim>\<open>if (propName)\<close> holds for a defined, non-empty name.
\<close>

definition string_example :: "externals \<Rightarrow> schema \<Rightarrow> string option \<Rightarrow> jsval" where
  "string_example X schema propName =
    (if s_format schema = Some ''date-time'' then JStr ''2024-01-15T12:00:00Z''
     else if s_format schema = Some ''date'' then JStr ''2024-01-15''
     else if s_format schema = Some ''email'' then JStr ''user@example.com''
     else if s_format schema = Some ''uri'' then JStr ''https://example.com''
     else (case propName of
             None \<Rightarrow> JStr ''string''
           | Some p \<Rightarrow>
               if p = [] then JStr ''string''
               else (let lower = toLowerCase X p in
                 if lower = ''role'' then JStr ''user''
                 else if lower = ''content'' \<or> lower = ''text'' then JStr ''Hello, how are you?''
                 else if lower = ''id'' then JStr ''msg_01XYZ''
                 else if lower = ''name'' then JStr ''example''
                 else if lower = ''description'' then JStr ''A sample description''
                 else JStr ''string'')))"

definition minimum_or :: "schema \<Rightarrow> rat \<Rightarrow> jsval" where
  "minimum_or schema d = (case s_minimum schema of Some m \<Rightarrow> JNum m | None \<Rightarrow> JNum d)"

definition integer_example :: "externals \<Rightarrow> schema \<Rightarrow> string option \<Rightarrow> jsval" where
  "integer_example X schema propName =
    (case propName of
       None \<Rightarrow> minimum_or schema 100
     | Some p \<Rightarrow>
         if p = [] then minimum_or schema 100
         else (let lower = toLowerCase X p in
           if str_includes lower ''token'' then JNum 1024
           else if lower = ''max_tokens'' then JNum 1024
           else minimum_or schema 100))"

definition number_example :: "externals \<Rightarrow> schema \<Rightarrow> string option \<Rightarrow> jsval" where
  "number_example X schema propName =
    (if (case propName of Some p \<Rightarrow> toLowerCase X p = ''temperature'' | None \<Rightarrow> False)
     then JNum (7 / 10)
     else minimum_or schema 1)"

definition primitive_example :: "externals \<Rightarrow> schema \<Rightarrow> string option \<Rightarrow> jsval" where
  "primitive_example X schema propName =
    (if s_type schema = Some ''string'' then string_example X schema propName
     else if s_type schema = Some ''integer'' then integer_example X schema propName
     else if s_type schema = Some ''number'' then number_example X schema propName
     else if s_type schema = Some ''boolean'' then JBool True
     else JNull)"

text \<open>
  The rank of a call: a synthesis call at depth \<open>d \<le> 3\<close> ranks above the property loop it
  starts at that depth, which ranks above every synthesis call at depth \<open>d + 1\<close>; the loop
  itself descends along the remaining properties.
\<close>

type_synonym example_call =
  "(externals \<times> schema \<times> schemas \<times> nat \<times> string option) +
   (externals \<times> string list \<times> schemas \<times> nat \<times> (string \<times> schema) list \<times>
      (string \<times> jsval) list)"

definition call_rank :: "example_call \<Rightarrow> nat \<times> nat" where
  "call_rank x =
    (case x of
       Inl (X, schema, schemas, depth, propName) \<Rightarrow>
         (if depth > 3 then 0 else 2 * (4 - depth) + 1, 0)
     | Inr (X, required, schemas, depth, props, obj) \<Rightarrow>
         (2 * (4 - depth), Suc (length props)))"

text \<open>
  \<^verbatim>\<open>generateExampleFromSchema(schema, schemas, depth = 0, propName?)\<close>. The
  \<^verbatim>\<open>for\<close> loop over \<^verbatim>\<open>Object.entries(schema.properties)\<close> is \<open>example_fields\<close>,
  which threads the object \<^verbatim>\<open>obj\<close> under construction; \<^verbatim>\<open>Object.keys(obj).length\<close>
  is the length of the association list. \<open>X\<close> supplies \<^verbatim>\<open>toLowerCase\<close>.
\<close>

function generateExampleFromSchema ::
    "externals \<Rightarrow> schema \<Rightarrow> schemas \<Rightarrow> nat \<Rightarrow> string option \<Rightarrow> jsval"
  and example_fields ::
    "externals \<Rightarrow> string list \<Rightarrow> schemas \<Rightarrow> nat \<Rightarrow> (string \<times> schema) list
      \<Rightarrow> (string \<times> jsval) list \<Rightarrow> (string \<times> jsval) list"
where
  "generateExampleFromSchema X schema schemas depth propName =
    (if depth > 3 then JNull
     else case s_example schema of
       Some e \<Rightarrow> e
     | None \<Rightarrow>
        (case ref_name schema of
           Some refName \<Rightarrow>
             (case lookup_schema schemas refName of
                Some resolvedSchema \<Rightarrow>
                  generateExampleFromSchema X resolvedSchema schemas (depth + 1) (Some refName)
              | None \<Rightarrow> JObj [])
         | None \<Rightarrow>
            (case first_enum schema of
               Some v \<Rightarrow> v
             | None \<Rightarrow>
                if s_type schema = Some ''array'' \<and> s_items schema \<noteq> None then
                  (case s_items schema of
                     Some items \<Rightarrow>
                       (let itemExample = generateExampleFromSchema X items schemas (depth + 1) None
                        in if truthy itemExample then JArr [itemExample] else JArr [])
                   | None \<Rightarrow> JArr [])
                else if s_type schema = Some ''object'' \<or> s_properties schema \<noteq> None then
                  (case s_properties schema of
                     Some props \<Rightarrow>
                       JObj (example_fields X (required_of schema) schemas depth props [])
                   | None \<Rightarrow> JObj [])
                else primitive_example X schema propName)))"
| "example_fields X required schemas depth [] obj = obj"
| "example_fields X required schemas depth ((fieldName, propSchema) # rest) obj =
    (if fieldName \<in> set required \<or> length obj < 5 then
       (let propExample =
              generateExampleFromSchema X propSchema schemas (depth + 1) (Some fieldName)
        in if propExample \<noteq> JNull
           then example_fields X required schemas depth rest (set_field obj fieldName propExample)
           else example_fields X required schemas depth rest obj)
     else example_fields X required schemas depth rest obj)"
  by pat_completeness auto
termination
  by (relation "inv_image (less_than <*lex*> less_than) call_rank")
    (auto simp: call_rank_def)

section \<open>Rendering helpers\<close>

definition nl :: string where
  "nl = [CHR 0x0A]"

text \<open>\<^verbatim>\<open>Array.prototype.join\<close>.\<close>

fun join :: "string \<Rightarrow> string list \<Rightarrow> string" where
  "join sep [] = []"
| "join sep [x] = x"
| "join sep (x # y # ys) = x @ sep @ join sep (y # ys)"

text \<open>\<^verbatim>\<open>a || b\<close> on an optional string: the empty string is falsy.\<close>

definition or_else :: "string option \<Rightarrow> string \<Rightarrow> string" where
  "or_else a b = (case a of None \<Rightarrow> b | Some x \<Rightarrow> if x = [] then b else x)"

text \<open>\<^verbatim>\<open>if (x) lines.push(...)\<close>: the lines are produced only for a truthy \<^verbatim>\<open>x\<close>.\<close>

definition when_truthy :: "string option \<Rightarrow> (string \<Rightarrow> string list) \<Rightarrow> string list" where
  "when_truthy a f = (case a of None \<Rightarrow> [] | Some x \<Rightarrow> if x = [] then [] else f x)"

section \<open>Output\<close>

record index_entry =
  ie_id :: string
  ie_intentKeywords :: "string list"
  ie_filePath :: string
  ie_dependencies :: "string list"

text \<open>A \<^verbatim>\<open>Record<string, string>\<close> of file bodies, in insertion order.\<close>

type_synonym files = "(string \<times> string) list"

record skill_output =
  so_skillMd :: string
  so_common :: files
  so_capabilities :: files

section \<open>MAPI documents\<close>

datatype scopes = Scope string | ScopeList "string list"

text \<open>The keys of \<^verbatim>\<open>meta\<close> that the generator reads.\<close>

record meta =
  m_version :: "string option"
  m_base_url :: "string option"
  m_auth :: "string option"
  m_auth_header :: "string option"
  m_auth_flow :: "string option"
  m_auth_scopes :: "scopes option"
  m_auth_docs_url :: "string option"

record capability_meta =
  cm_id :: string
  cm_transport :: string
  cm_auth :: "string option"
  cm_idempotent :: "bool option"
  cm_deprecated :: "bool option"

record capability =
  c_name :: string
  c_meta :: capability_meta
  c_intention :: "string option"
  c_authIntention :: "string option"
  c_input :: "string option"
  c_output :: "string option"
  c_logicConstraints :: "string option"
  c_errors :: "string option"
  c_example :: "string option"
  c_rawContent :: "string option"

record mapi_document =
  d_title :: string
  d_description :: "string option"
  d_meta :: meta
  d_globalTypes :: "string option"
  d_capabilities :: "capability list"

subsection \<open>The index document\<close>

definition common_file_row :: "string \<Rightarrow> string" where
  "common_file_row file =
    ''| common/'' @ file @ '' | '' @
      (if str_includes file ''auth'' then ''Authentication setup''
       else if str_includes file ''schema'' then ''Shared type definitions''
       else if str_includes file ''pagination'' then ''Pagination conventions''
       else ''Common definitions'') @ '' |''"

definition index_row :: "index_entry \<Rightarrow> string" where
  "index_row entry =
    (let keywords = join '', '' (take 5 (ie_intentKeywords entry));
         deps = (if join '', '' (ie_dependencies entry) = [] then ''-''
                 else join '', '' (ie_dependencies entry))
     in ''| '' @ ie_id entry @ '' | '' @ keywords @ '' | '' @ ie_filePath entry @ '' | '' @ deps @ '' |'')"

definition generateSkillMd ::
  "string \<Rightarrow> string option \<Rightarrow> meta \<Rightarrow> index_entry list \<Rightarrow> string list \<Rightarrow> string" where
  "generateSkillMd name description meta index commonFiles =
    join nl
     ([''# '' @ name, []]
      @ when_truthy description (\<lambda>d. [d, []])
      @ [''~~~meta'']
      @ when_truthy (m_version meta) (\<lambda>v. [''version: '' @ v])
      @ when_truthy (m_base_url meta) (\<lambda>b. [''base_url: '' @ b])
      @ when_truthy (m_auth meta) (\<lambda>a. [''auth: '' @ a])
      @ [''~~~'', []]
      @ (if length commonFiles > 0 then
           [''## Common Dependencies'', [], ''| File | Description |'', ''|------|-------------|'']
           @ map common_file_row commonFiles @ [[]]
         else [])
      @ [''## Capabilities'', [],
         ''| ID | Intent Keywords | File | Dependencies |'',
         ''|----|-----------------|------|--------------|'']
      @ map index_row index
      @ [[]])"

subsection \<open>Common files\<close>

definition generateAuthFile :: "meta \<Rightarrow> string" where
  "generateAuthFile meta =
    join nl
     ([''# Authentication'', []]
      @ (if m_auth meta = Some ''bearer'' then
           [''This API uses Bearer token authentication.'', [], ''## Usage'', [],
            ''Include the token in the Authorization header:'',
            ''```'', ''Authorization: Bearer {token}'', ''```'']
         else if m_auth meta = Some ''api_key'' then
           [''This API uses API key authentication.'', [], ''## Usage'', [],
            ''Include the API key in the `'' @ or_else (m_auth_header meta) ''X-API-Key'' @ ''` header.'']
         else if m_auth meta = Some ''oauth2'' then
           [''This API uses OAuth 2.0 authentication.'', []]
           @ when_truthy (m_auth_flow meta) (\<lambda>f. [''## Flow: '' @ f, []])
           @ (case m_auth_scopes meta of
                None \<Rightarrow> []
              | Some (Scope sc) \<Rightarrow>
                  if sc = [] then []
                  else [''## Default Scopes'', [], ''- `'' @ sc @ ''`'']
              | Some (ScopeList scs) \<Rightarrow>
                  [''## Default Scopes'', []] @ map (\<lambda>sc. ''- `'' @ sc @ ''`'') scs)
         else
           [''Authentication type: '' @ (case m_auth meta of Some a \<Rightarrow> a | None \<Rightarrow> ''undefined'')])
      @ when_truthy (m_auth_docs_url meta) (\<lambda>u.
          [[], ''## Documentation'', [],
           ''See [Authentication Docs]('' @ u @ '') for setup instructions.''])
      @ [[]])"

definition generateTypesFile :: "string \<Rightarrow> string" where
  "generateTypesFile globalTypes =
    join nl [''# Shared Types'', [], ''```typescript'', globalTypes, ''```'', []]"

subsection \<open>Capability files\<close>

definition show_bool :: "bool \<Rightarrow> string" where
  "show_bool b = (if b then ''true'' else ''false'')"

definition generateCapabilityFile :: "capability \<Rightarrow> string" where
  "generateCapabilityFile cap =
    join nl
     ([''# Capability: '' @ c_name cap, [],
       ''~~~meta'',
       ''id: '' @ cm_id (c_meta cap),
       ''transport: '' @ cm_transport (c_meta cap)]
      @ when_truthy (cm_auth (c_meta cap)) (\<lambda>a. [''auth: '' @ a])
      @ (case cm_idempotent (c_meta cap) of
           None \<Rightarrow> []
         | Some b \<Rightarrow> [''idempotent: '' @ show_bool b])
      @ (if cm_deprecated (c_meta cap) = Some True then [''deprecated: true''] else [])
      @ [''~~~'', []]
      @ when_truthy (c_intention cap) (\<lambda>t. [''## Intention'', [], t, []])
      @ when_truthy (c_authIntention cap) (\<lambda>t. [''## Auth Intention'', [], t, []])
      @ when_truthy (c_input cap) (\<lambda>t. [''## Input'', [], ''```typescript'', t, ''```'', []])
      @ when_truthy (c_output cap) (\<lambda>t. [''## Output'', [], ''```typescript'', t, ''```'', []])
      @ when_truthy (c_logicConstraints cap) (\<lambda>t. [''## Logic Constraints'', [], t, []])
      @ when_truthy (c_errors cap) (\<lambda>t. [''## Errors'', [], t, []])
      @ when_truthy (c_example cap) (\<lambda>t. [''## Example'', [], t, []]))"

subsection \<open>Dependencies of a MAPI capability\<close>

text \<open>
  The scan \<^verbatim>\<open>globalTypes.match(/interface\s+(\w+)|type\s+(\w+)/g)\<close>, followed by
  \<^verbatim>\<open>m.split(/\s+/)[1]\<close>, which recovers the captured name. The character classes are
  disjoint, so the greedy match is the only one at a position. The class \<^verbatim>\<open>\s\<close> holds
  the six ASCII white-space characters and, in UTF-8, U+00A0, U+1680, U+2000 to U+200A,
  U+2028, U+2029, U+202F, U+205F, U+3000 and U+FEFF; the class \<^verbatim>\<open>\w\<close> is ASCII.
\<close>

definition ascii_spaces :: string where
  "ascii_spaces = [CHR '' '', CHR 0x09, CHR 0x0A, CHR 0x0B, CHR 0x0C, CHR 0x0D]"

definition wide_spaces :: "string list" where
  "wide_spaces =
    [[CHR 0xC2, CHR 0xA0], [CHR 0xE1, CHR 0x9A, CHR 0x80],
     [CHR 0xE2, CHR 0x80, CHR 0x80], [CHR 0xE2, CHR 0x80, CHR 0x81],
     [CHR 0xE2, CHR 0x80, CHR 0x82], [CHR 0xE2, CHR 0x80, CHR 0x83],
     [CHR 0xE2, CHR 0x80, CHR 0x84], [CHR 0xE2, CHR 0x80, CHR 0x85],
     [CHR 0xE2, CHR 0x80, CHR 0x86], [CHR 0xE2, CHR 0x80, CHR 0x87],
     [CHR 0xE2, CHR 0x80, CHR 0x88], [CHR 0xE2, CHR 0x80, CHR 0x89],
     [CHR 0xE2, CHR 0x80, CHR 0x8A], [CHR 0xE2, CHR 0x80, CHR 0xA8],
     [CHR 0xE2, CHR 0x80, CHR 0xA9], [CHR 0xE2, CHR 0x80, CHR 0xAF],
     [CHR 0xE2, CHR 0x81, CHR 0x9F], [CHR 0xE3, CHR 0x80, CHR 0x80],
     [CHR 0xEF, CHR 0xBB, CHR 0xBF]]"

text \<open>The number of bytes of the white-space character at the head of a text, 0 without one.\<close>

definition space_width :: "string \<Rightarrow> nat" where
  "space_width s =
    (case s of
       [] \<Rightarrow> 0
     | c # cs \<Rightarrow>
         if c \<in> set ascii_spaces then 1
         else (case find (\<lambda>sp. startsWith s sp) wide_spaces of
                 Some sp \<Rightarrow> length sp
               | None \<Rightarrow> 0))"

text \<open>The number of bytes of the longest run of white space at the head of a text.\<close>

fun leading_spaces :: "nat \<Rightarrow> string \<Rightarrow> nat" where
  "leading_spaces skip [] = 0"
| "leading_spaces skip (c # cs) =
    (if skip > 0 then Suc (leading_spaces (skip - 1) cs)
     else if space_width (c # cs) = 0 then 0
     else Suc (leading_spaces (space_width (c # cs) - 1) cs))"

definition is_word :: "char \<Rightarrow> bool" where
  "is_word c = (is_upper c \<or> is_lower c \<or> c \<in> set ''0123456789_'')"

definition match_keyword :: "string \<Rightarrow> string \<Rightarrow> (string \<times> nat) option" where
  "match_keyword kw s =
    (if startsWith s kw then
       (let r = drop (length kw) s;
            n = leading_spaces 0 r;
            w = takeWhile is_word (drop n r)
        in if n > 0 \<and> w \<noteq> [] then Some (w, length kw + n + length w) else None)
     else None)"

definition match_decl :: "string \<Rightarrow> (string \<times> nat) option" where
  "match_decl s =
    (case match_keyword ''interface'' s of
       Some m \<Rightarrow> Some m
     | None \<Rightarrow> match_keyword ''type'' s)"

text \<open>
  All matches from left to right; after a match of length \<open>n\<close> the scan resumes behind it
  (\<open>skip\<close> counts the characters of the match still to pass).
\<close>

fun scan_decls :: "nat \<Rightarrow> string \<Rightarrow> string list" where
  "scan_decls skip [] = []"
| "scan_decls skip (c # cs) =
    (if skip > 0 then scan_decls (skip - 1) cs
     else case match_decl (c # cs) of
            Some (w, n) \<Rightarrow> w # scan_decls (n - 1) cs
          | None \<Rightarrow> scan_decls 0 cs)"

definition determineMapiDependencies :: "capability \<Rightarrow> mapi_document \<Rightarrow> string list" where
  "determineMapiDependencies cap doc =
    (if cm_auth (c_meta cap) = Some ''required'' \<or>
        (cm_auth (c_meta cap) = None \<and> m_auth (d_meta doc) \<noteq> Some ''none'')
     then [''auth''] else [])
    @ (case d_globalTypes doc of
         None \<Rightarrow> []
       | Some globalTypes \<Rightarrow>
          (case c_rawContent cap of
             None \<Rightarrow> []
           | Some rawContent \<Rightarrow>
               if globalTypes \<noteq> [] \<and> rawContent \<noteq> [] \<and>
                  list_ex (\<lambda>typeName. str_includes rawContent typeName) (scan_decls 0 globalTypes)
               then [''schemas/types''] else []))"

subsection \<open>The MAPI generator\<close>

text \<open>
  The body of \<^verbatim>\<open>for (const cap of doc.capabilities)\<close>, threading the file table and
  the index built so far.
\<close>

definition mapi_keywords ::
  "externals \<Rightarrow> 'w convert_options \<Rightarrow> capability \<Rightarrow> 'w \<Rightarrow> (error + string list) \<times> 'w" where
  "mapi_keywords X options cap w =
    (let fallback = (Inr (extractIntentKeywords X (or_else (c_intention cap) (c_name cap))
                            (cm_id (c_meta cap))), w)
     in case intentGenerator options of
          None \<Rightarrow> fallback
        | Some g \<Rightarrow>
            (case c_intention cap of
               None \<Rightarrow> fallback
             | Some intention \<Rightarrow>
                 if intention = [] then fallback else g (cm_id (c_meta cap)) intention w))"

fun mapi_capabilities ::
  "externals \<Rightarrow> 'w convert_options \<Rightarrow> mapi_document \<Rightarrow> capability list \<Rightarrow> files \<times> index_entry list
    \<Rightarrow> 'w \<Rightarrow> (error + files \<times> index_entry list) \<times> 'w" where
  "mapi_capabilities X options doc [] acc w = (Inr acc, w)"
| "mapi_capabilities X options doc (cap # rest) (capabilities, index) w =
    (let fileName = cm_id (c_meta cap) @ ''.md'';
         capabilities' = assign capabilities fileName (generateCapabilityFile cap)
     in case mapi_keywords X options cap w of
          (Inl e, w') \<Rightarrow> (Inl e, w')
        | (Inr keywords, w') \<Rightarrow>
            mapi_capabilities X options doc rest
              (capabilities',
               index @ [\<lparr>ie_id = cm_id (c_meta cap), ie_intentKeywords = keywords,
                         ie_filePath = ''capabilities/'' @ fileName,
                         ie_dependencies = determineMapiDependencies cap doc\<rparr>])
              w')"

definition mapi_common :: "mapi_document \<Rightarrow> files" where
  "mapi_common doc =
    (let common = (if truthy_str (m_auth (d_meta doc)) \<and> m_auth (d_meta doc) \<noteq> Some ''none''
                   then assign [] ''auth.md'' (generateAuthFile (d_meta doc)) else [])
     in case d_globalTypes doc of
          None \<Rightarrow> common
        | Some globalTypes \<Rightarrow>
            if globalTypes = [] then common
            else assign common ''schemas/types.md'' (generateTypesFile globalTypes))"

definition generateSkillFromMapi ::
  "externals \<Rightarrow> mapi_document \<Rightarrow> 'w convert_options \<Rightarrow> 'w \<Rightarrow> (error + skill_output) \<times> 'w" where
  "generateSkillFromMapi X doc options w =
    (let name = or_else (apiName options) (d_title doc);
         common = mapi_common doc
     in case mapi_capabilities X options doc (d_capabilities doc) ([], []) w of
          (Inl e, w') \<Rightarrow> (Inl e, w')
        | (Inr (capabilities, index), w') \<Rightarrow>
            (Inr \<lparr>so_skillMd = generateSkillMd name (d_description doc) (d_meta doc) index
                                  (map fst common),
                  so_common = common,
                  so_capabilities = capabilities\<rparr>, w'))"

section \<open>OpenAPI documents\<close>

record auth_descriptor =
  a_type :: string
  a_flows :: "(string \<times> jsval) list option"

record openapi_document =
  od_title :: string
  od_description :: "string option"
  od_version :: "string option"
  od_baseUrl :: "string option"
  od_auth :: "auth_descriptor option"
  od_schemas :: schemas
  od_operations :: "operation list"

subsection \<open>Operation identifiers\<close>

text \<open>\<^verbatim>\<open>replace(/([a-z])([A-Z])/g, '$1.$2')\<close>: after a match the scan goes on behind both letters.\<close>

fun camel_to_dots :: "string \<Rightarrow> string" where
  "camel_to_dots (a # b # cs) =
    (if is_lower a \<and> is_upper b then a # CHR ''.'' # b # camel_to_dots cs
     else a # camel_to_dots (b # cs))"
| "camel_to_dots cs = cs"

text \<open>\<^verbatim>\<open>replace(/_/, '.')\<close>: without the \<^verbatim>\<open>g\<close> flag only the first match is replaced.\<close>

fun replace_first_underscore :: "string \<Rightarrow> string" where
  "replace_first_underscore [] = []"
| "replace_first_underscore (c # cs) =
    (if c = CHR ''_'' then CHR ''.'' # cs else c # replace_first_underscore cs)"

definition normalizeOperationId :: "externals \<Rightarrow> string \<Rightarrow> string" where
  "normalizeOperationId X operationId =
    (if str_includes operationId ''.'' then toLowerCase X operationId
     else replace_first_underscore (toLowerCase X (camel_to_dots operationId)))"

text \<open>
  The normalization in the words of the specification, with the letters of a transition
  made explicit: a dot at every position where one of the letters \<^verbatim>\<open>a\<close> to \<^verbatim>\<open>z\<close> is
  followed by one of the letters \<^verbatim>\<open>A\<close> to \<^verbatim>\<open>Z\<close>, everything lowercased by the built-in,
  then the first underscore turned into a dot.
\<close>

fun dots_at_transitions :: "string \<Rightarrow> string" where
  "dots_at_transitions (a # b # cs) =
    (if is_lower a \<and> is_upper b then a # CHR ''.'' # dots_at_transitions (b # cs)
     else a # dots_at_transitions (b # cs))"
| "dots_at_transitions cs = cs"

definition first_underscore_to_dot :: "string \<Rightarrow> string" where
  "first_underscore_to_dot s =
    takeWhile (\<lambda>c. c \<noteq> CHR ''_'') s @
      (case dropWhile (\<lambda>c. c \<noteq> CHR ''_'') s of [] \<Rightarrow> [] | u # r \<Rightarrow> CHR ''.'' # r)"

definition spec_normalizeOperationId :: "externals \<Rightarrow> string \<Rightarrow> string" where
  "spec_normalizeOperationId X s =
    (if CHR ''.'' \<in> set s then toLowerCase X s
     else first_underscore_to_dot (toLowerCase X (dots_at_transitions s)))"

subsection \<open>Common files\<close>

definition generateAuthFromOpenApi :: "openapi_document \<Rightarrow> string" where
  "generateAuthFromOpenApi doc =
    (case od_auth doc of
       None \<Rightarrow> join nl [''# Authentication'', [], ''No authentication required.'']
     | Some a \<Rightarrow>
         join nl
          ([''# Authentication'', []]
           @ (if a_type a = ''bearer'' then
                [''This API uses Bearer token authentication.'', [], ''## Usage'', [],
                 ''```'', ''Authorization: Bearer {token}'', ''```'']
              else if a_type a = ''api_key'' then
                [''This API uses API key authentication.'']
              else if a_type a = ''oauth2'' then
                [''This API uses OAuth 2.0 authentication.'']
                @ (case a_flows a of
                     None \<Rightarrow> []
                   | Some flows \<Rightarrow> [[], ''## Flows'', []] @ map (\<lambda>(flowName, f). ''- '' @ flowName) flows)
              else [])
           @ [[]]))"

definition generateSchemasFromOpenApi :: "externals \<Rightarrow> schemas \<Rightarrow> string" where
  "generateSchemasFromOpenApi X schemas =
    join nl
     ([''# Shared Types'', [], ''```typescript'']
      @ concat (map (\<lambda>(name, schema).
                  (let ts = schemaToTypeScript X schema name schemas
                   in if startsWith ts ''interface'' then [ts, []]
                      else [''type '' @ name @ '' = '' @ ts @ '';'', []])) schemas)
      @ [''```''])"

subsection \<open>Field tables\<close>

definition one_of :: "externals \<Rightarrow> jsval list \<Rightarrow> string" where
  "one_of X vs = ''One of: '' @ join '', '' (map (\<lambda>e. ''`'' @ to_string X e @ ''`'') vs)"

text \<open>\<^verbatim>\<open>getTypeDescription\<close> returns \<^verbatim>\<open>{ type, description? }\<close>, here a pair.\<close>

fun getTypeDescription :: "externals \<Rightarrow> schema option \<Rightarrow> schemas \<Rightarrow> string \<times> string option" where
  "getTypeDescription X None schemas = (''string'', None)"
| "getTypeDescription X (Some (Schema rf ty props req items en fmt descr ex mn)) schemas =
    (if truthy_str rf then
       (let refName = or_else (Some (split_pop (or_else rf []))) ''object''
        in case lookup_schema schemas refName of
             None \<Rightarrow> (refName, None)
           | Some resolvedSchema \<Rightarrow>
               (case s_enum resolvedSchema of
                  Some vs \<Rightarrow> (''string'', Some (one_of X vs))
                | None \<Rightarrow> (refName, None)))
     else case en of
       Some vs \<Rightarrow> (''string'', Some (one_of X vs))
     | None \<Rightarrow>
        (let other = (if ty = Some ''object'' \<or> props \<noteq> None then (''object'', None)
                      else (or_else ty ''string'', None))
         in case items of
              None \<Rightarrow> other
            | Some i \<Rightarrow>
                if ty = Some ''array'' then
                  (let itemType = getTypeDescription X (Some i) schemas
                   in (''array of '' @ fst itemType, snd itemType))
                else other))"

text \<open>The reference resolution shared by the two table generators.\<close>

definition resolve_ref :: "schema \<Rightarrow> schemas \<Rightarrow> schema" where
  "resolve_ref schema schemas =
    (case ref_name schema of
       None \<Rightarrow> schema
     | Some refName \<Rightarrow> (case lookup_schema schemas refName of Some r \<Rightarrow> r | None \<Rightarrow> schema))"

definition generateInputTableRows :: "externals \<Rightarrow> schema \<Rightarrow> schemas \<Rightarrow> bool \<Rightarrow> string list" where
  "generateInputTableRows X schema schemas parentRequired =
    (let resolvedSchema = resolve_ref schema schemas
     in case s_properties resolvedSchema of
          None \<Rightarrow> []
        | Some props \<Rightarrow>
            map (\<lambda>(propName, propSchema).
                  (let isRequired = (if propName \<in> set (required_of resolvedSchema)
                                     then ''yes'' else ''no'');
                       typeInfo = getTypeDescription X (Some propSchema) schemas;
                       desc = or_else (s_description propSchema) (or_else (snd typeInfo) [])
                   in ''| '' @ propName @ '' | '' @ fst typeInfo @ '' | '' @ isRequired @ '' | '' @ desc @ '' |''))
              props)"

definition generateOutputTableRows :: "externals \<Rightarrow> schema \<Rightarrow> schemas \<Rightarrow> string list" where
  "generateOutputTableRows X schema schemas =
    (let resolvedSchema = resolve_ref schema schemas
     in case s_properties resolvedSchema of
          None \<Rightarrow> []
        | Some props \<Rightarrow>
            map (\<lambda>(propName, propSchema).
                  (let typeInfo = getTypeDescription X (Some propSchema) schemas;
                       desc = or_else (s_description propSchema) (or_else (snd typeInfo) [])
                   in ''| '' @ propName @ '' | '' @ fst typeInfo @ '' | '' @ desc @ '' |''))
              props)"

subsection \<open>Examples in a capability file\<close>

text \<open>\<^verbatim>\<open>x?.content?.['application/json']?.schema\<close>.\<close>

definition json_schema :: "content option \<Rightarrow> schema option" where
  "json_schema c =
    (case c of
       None \<Rightarrow> None
     | Some entries \<Rightarrow> (case map_of entries ''application/json'' of Some (Some s) \<Rightarrow> Some s | _ \<Rightarrow> None))"

text \<open>\<^verbatim>\<open>op.responses?.['200'] || op.responses?.['201'] || ...\<close>: the first status present.\<close>

fun find_response :: "string list \<Rightarrow> (string \<times> response) list option \<Rightarrow> response option" where
  "find_response codes None = None"
| "find_response [] (Some rs) = None"
| "find_response (code # codes) (Some rs) =
    (case map_of rs code of Some r \<Rightarrow> Some r | None \<Rightarrow> find_response codes (Some rs))"

text \<open>\<^verbatim>\<open>Object.keys(v).length\<close> for each kind of value.\<close>

fun keys_count :: "jsval \<Rightarrow> nat" where
  "keys_count (JStr s) = length s"
| "keys_count (JArr xs) = length xs"
| "keys_count (JObj kvs) = length kvs"
| "keys_count v = 0"

definition example_block :: "externals \<Rightarrow> string \<Rightarrow> schema \<Rightarrow> schemas \<Rightarrow> string list" where
  "example_block X title schema schemas =
    (let example = generateExampleFromSchema X schema schemas 0 None
     in if truthy example \<and> keys_count example > 0
        then [title, ''```json'', json_stringify X example, ''```'']
        else [])"

definition generateExample :: "externals \<Rightarrow> operation \<Rightarrow> openapi_document \<Rightarrow> string option" where
  "generateExample X op doc =
    (let request =
           (case o_requestBody op of
              None \<Rightarrow> []
            | Some body \<Rightarrow>
               (case json_schema (rb_content body) of
                  None \<Rightarrow> []
                | Some schema \<Rightarrow> example_block X ''Request:'' schema (od_schemas doc)));
         response =
           (case find_response [''200'', ''201''] (o_responses op) of
              None \<Rightarrow> []
            | Some successResponse \<Rightarrow>
               (case json_schema (rs_content successResponse) of
                  None \<Rightarrow> []
                | Some schema \<Rightarrow>
                   (let block = example_block X ''Response:'' schema (od_schemas doc)
                    in if block = [] then []
                       else (if length request > 0 then [[]] else []) @ block)));
         lines = request @ response
     in if length lines > 0 then Some (join nl lines) else None)"

subsection \<open>Capability files\<close>

definition parameter_row :: "externals \<Rightarrow> schemas \<Rightarrow> parameter \<Rightarrow> string" where
  "parameter_row X schemas param =
    (let required = (if p_required param = Some True then ''yes'' else ''no'');
         typeInfo = getTypeDescription X (p_schema param) schemas;
         desc = or_else (p_description param) (''Parameter from '' @ p_in param)
     in ''| '' @ p_name param @ '' | '' @ fst typeInfo @ '' | '' @ required @ '' | '' @
        or_else (snd typeInfo) desc @ '' |'')"

definition generateCapabilityFromOperation :: "externals \<Rightarrow> operation \<Rightarrow> openapi_document \<Rightarrow> string" where
  "generateCapabilityFromOperation X op doc =
    join nl
     ([''# Capability: '' @ or_else (o_summary op) (o_operationId op), [],
       ''~~~meta'',
       ''id: '' @ normalizeOperationId X (o_operationId op),
       ''transport: HTTP '' @ o_method op @ '' '' @ o_path op]
      @ (case o_security op of
           None \<Rightarrow> []
         | Some security \<Rightarrow> if length security > 0 then [''auth: required''] else [])
      @ [''~~~'', [],
         ''## Intention'', [],
         or_else (o_description op)
           (or_else (o_summary op) (''Performs '' @ o_operationId op @ '' operation.'')),
         []]
      @ (if (case o_parameters op of Some ps \<Rightarrow> length ps > 0 | None \<Rightarrow> False) \<or>
            o_requestBody op \<noteq> None
         then
           [''## Input'', [],
            ''| Field | Type | Required | Description |'',
            ''|-------|------|----------|-------------|'']
           @ (case o_parameters op of
                None \<Rightarrow> []
              | Some ps \<Rightarrow> map (parameter_row X (od_schemas doc)) ps)
           @ (case o_requestBody op of
                None \<Rightarrow> []
              | Some body \<Rightarrow>
                 (case json_schema (rb_content body) of
                    None \<Rightarrow> []
                  | Some bodySchema \<Rightarrow>
                      generateInputTableRows X bodySchema (od_schemas doc)
                        (rb_required body = Some True)))
           @ [[]]
         else [])
      @ (case find_response [''200'', ''201'', ''204''] (o_responses op) of
           None \<Rightarrow> []
         | Some successResponse \<Rightarrow>
            (case json_schema (rs_content successResponse) of
               None \<Rightarrow> []
             | Some outputSchema \<Rightarrow>
                 [''## Output'', [],
                  ''| Field | Type | Description |'',
                  ''|-------|------|-------------|'']
                 @ generateOutputTableRows X outputSchema (od_schemas doc)
                 @ [[]]))
      @ when_truthy (generateExample X op doc) (\<lambda>example. [''## Example'', [], example, []]))"

subsection \<open>Dependencies of an OpenAPI operation\<close>

definition determineOpenApiDependencies :: "operation \<Rightarrow> openapi_document \<Rightarrow> string list" where
  "determineOpenApiDependencies op doc =
    (case o_security op of
       None \<Rightarrow> []
     | Some security \<Rightarrow> if length security > 0 then [''auth''] else [])
    @ (if length (od_schemas doc) > 0 then [''schemas/types''] else [])"

subsection \<open>The OpenAPI generator\<close>

definition openapi_keywords ::
  "externals \<Rightarrow> 'w convert_options \<Rightarrow> operation \<Rightarrow> 'w \<Rightarrow> (error + string list) \<times> 'w" where
  "openapi_keywords X options op w =
    (case intentGenerator options of
       Some g \<Rightarrow>
         g (normalizeOperationId X (o_operationId op))
           (or_else (o_description op) (or_else (o_summary op) (o_operationId op))) w
     | None \<Rightarrow> (Inr (extractOpenApiIntentKeywords X op), w))"

text \<open>The body of \<^verbatim>\<open>for (const op of doc.operations)\<close>.\<close>

fun openapi_operations ::
  "externals \<Rightarrow> 'w convert_options \<Rightarrow> openapi_document \<Rightarrow> operation list \<Rightarrow> files \<times> index_entry list
    \<Rightarrow> 'w \<Rightarrow> (error + files \<times> index_entry list) \<times> 'w" where
  "openapi_operations X options doc [] acc w = (Inr acc, w)"
| "openapi_operations X options doc (op # rest) (capabilities, index) w =
    (let capabilityId = normalizeOperationId X (o_operationId op);
         fileName = capabilityId @ ''.md'';
         capabilities' = assign capabilities fileName (generateCapabilityFromOperation X op doc)
     in case openapi_keywords X options op w of
          (Inl e, w') \<Rightarrow> (Inl e, w')
        | (Inr keywords, w') \<Rightarrow>
            openapi_operations X options doc rest
              (capabilities',
               index @ [\<lparr>ie_id = capabilityId, ie_intentKeywords = keywords,
                         ie_filePath = ''capabilities/'' @ fileName,
                         ie_dependencies = determineOpenApiDependencies op doc\<rparr>])
              w')"

definition openapi_common :: "externals \<Rightarrow> openapi_document \<Rightarrow> files" where
  "openapi_common X doc =
    (let common = (if od_auth doc \<noteq> None then assign [] ''auth.md'' (generateAuthFromOpenApi doc)
                   else [])
     in if length (od_schemas doc) > 0
        then assign common ''schemas/types.md'' (generateSchemasFromOpenApi X (od_schemas doc))
        else common)"

definition openapi_meta :: "openapi_document \<Rightarrow> meta" where
  "openapi_meta doc =
    \<lparr>m_version = od_version doc,
     m_base_url = od_baseUrl doc,
     m_auth = Some (or_else (map_option a_type (od_auth doc)) ''none''),
     m_auth_header = None, m_auth_flow = None, m_auth_scopes = None, m_auth_docs_url = None\<rparr>"

definition generateSkillFromOpenApi ::
  "externals \<Rightarrow> openapi_document \<Rightarrow> 'w convert_options \<Rightarrow> 'w \<Rightarrow> (error + skill_output) \<times> 'w" where
  "generateSkillFromOpenApi X doc options w =
    (let name = or_else (apiName options) (od_title doc);
         common = openapi_common X doc
     in case openapi_operations X options doc (od_operations doc) ([], []) w of
          (Inl e, w') \<Rightarrow> (Inl e, w')
        | (Inr (capabilities, index), w') \<Rightarrow>
            (Inr \<lparr>so_skillMd = generateSkillMd name (od_description doc) (openapi_meta doc) index
                                  (map fst common),
                  so_common = common,
                  so_capabilities = capabilities\<rparr>, w'))"

section \<open>Notions used in the statements\<close>

text \<open>
  The recursive equation of \<open>generateExampleFromSchema\<close> is applied on request only, so
  that it is not unfolded without bound.
\<close>

declare generateExampleFromSchema.simps(1) [simp del]




text \<open>A node for which synthesis reaches the final \<^verbatim>\<open>switch\<close> when its type is a primitive one.\<close>

definition primitive_node :: "schema \<Rightarrow> bool" where
  "primitive_node schema =
    (s_example schema = None \<and> ref_name schema = None \<and> first_enum schema = None \<and>
     s_properties schema = None)"

definition mentions_token :: "externals \<Rightarrow> string option \<Rightarrow> bool" where
  "mentions_token X propName =
    (case propName of
       Some p \<Rightarrow> p \<noteq> [] \<and> str_includes (toLowerCase X p) ''token''
     | None \<Rightarrow> False)"

definition named_temperature :: "externals \<Rightarrow> string option \<Rightarrow> bool" where
  "named_temperature X propName =
    (case propName of Some p \<Rightarrow> toLowerCase X p = ''temperature'' | None \<Rightarrow> False)"



text \<open>The index that a run of a generator builds (empty when the keyword provider rejects).\<close>

definition index_of :: "(error + files \<times> index_entry list) \<times> 'w \<Rightarrow> index_entry list" where
  "index_of r = (case fst r of Inr (capabilities, index) \<Rightarrow> index | Inl e \<Rightarrow> [])"

definition mapi_index ::
  "externals \<Rightarrow> mapi_document \<Rightarrow> 'w convert_options \<Rightarrow> 'w \<Rightarrow> index_entry list" where
  "mapi_index X doc options w =
    index_of (mapi_capabilities X options doc (d_capabilities doc) ([], []) w)"

definition openapi_index ::
  "externals \<Rightarrow> openapi_document \<Rightarrow> 'w convert_options \<Rightarrow> 'w \<Rightarrow> index_entry list" where
  "openapi_index X doc options w =
    index_of (openapi_operations X options doc (od_operations doc) ([], []) w)"

text \<open>Every index entry points at a file of the table, under \<^verbatim>\<open>capabilities/\<close>.\<close>

definition files_listed :: "files \<Rightarrow> index_entry list \<Rightarrow> bool" where
  "files_listed fs index =
    (\<forall>e \<in> set index. \<exists>k \<in> fst ` set fs. ie_filePath e = ''capabilities/'' @ k)"

text \<open>
  A keyword provider is deterministic when its answer does not depend on the state of the
  outside world; no provider at all is the first case.
\<close>

definition deterministic_provider :: "'w convert_options \<Rightarrow> bool" where
  "deterministic_provider options =
    (case intentGenerator options of
       None \<Rightarrow> True
     | Some g \<Rightarrow> \<forall>cid d w w'. fst (g cid d w) = fst (g cid d w'))"

section \<open>Sample inputs\<close>

definition ref_to :: "string \<Rightarrow> schema" where
  "ref_to r = Schema (Some r) None None None None None None None None None"

definition typed :: "string \<Rightarrow> schema" where
  "typed ty = Schema None (Some ty) None None None None None None None None"

definition object_of :: "(string \<times> schema) list \<Rightarrow> string list \<Rightarrow> schema" where
  "object_of props req =
    Schema None (Some ''object'') (Some props) (Some req) None None None None None None"

text \<open>A named schema whose only property refers back to the schema itself.\<close>

definition node_table :: schemas where
  "node_table =
    [(''Node'', object_of [(''next'', ref_to ''#/components/schemas/Node'')] [''next''])]"





definition integer_with_minimum :: "rat \<Rightarrow> schema" where
  "integer_with_minimum m =
    Schema None (Some ''integer'') None None None None None None None (Some m)"


text \<open>
  A stand-in for \<^verbatim>\<open>toLowerCase\<close> that is exact on text of the Basic Latin and Latin-1
  Supplement blocks: besides \<^verbatim>\<open>A\<close> to \<^verbatim>\<open>Z\<close> it lowercases U+00C0 to U+00DE (U+00D7
  apart), in UTF-8 the byte \<open>0xC3\<close> followed by a byte from \<open>0x80\<close> to \<open>0x9E\<close>, whose
  lowercase form has \<open>0x20\<close> more in the second byte.
\<close>

definition latin1_capital_tails :: string where
  "latin1_capital_tails =
    [CHR 0x80, CHR 0x81, CHR 0x82, CHR 0x83, CHR 0x84, CHR 0x85, CHR 0x86, CHR 0x87,
     CHR 0x88, CHR 0x89, CHR 0x8A, CHR 0x8B, CHR 0x8C, CHR 0x8D, CHR 0x8E, CHR 0x8F,
     CHR 0x90, CHR 0x91, CHR 0x92, CHR 0x93, CHR 0x94, CHR 0x95, CHR 0x96,
     CHR 0x98, CHR 0x99, CHR 0x9A, CHR 0x9B, CHR 0x9C, CHR 0x9D, CHR 0x9E]"

definition latin1_small_tails :: string where
  "latin1_small_tails =
    [CHR 0xA0, CHR 0xA1, CHR 0xA2, CHR 0xA3, CHR 0xA4, CHR 0xA5, CHR 0xA6, CHR 0xA7,
     CHR 0xA8, CHR 0xA9, CHR 0xAA, CHR 0xAB, CHR 0xAC, CHR 0xAD, CHR 0xAE, CHR 0xAF,
     CHR 0xB0, CHR 0xB1, CHR 0xB2, CHR 0xB3, CHR 0xB4, CHR 0xB5, CHR 0xB6,
     CHR 0xB8, CHR 0xB9, CHR 0xBA, CHR 0xBB, CHR 0xBC, CHR 0xBD, CHR 0xBE]"

definition latin1_small_tail :: "char \<Rightarrow> char \<Rightarrow> char option" where
  "latin1_small_tail a b =
    (if a = CHR 0xC3 then map_of (zip latin1_capital_tails latin1_small_tails) b else None)"

fun latin1_lower :: "string \<Rightarrow> string" where
  "latin1_lower (a # b # cs) =
    (case latin1_small_tail a b of
       Some l \<Rightarrow> a # l # latin1_lower cs
     | None \<Rightarrow> lower_char a # latin1_lower (b # cs))"
| "latin1_lower [a] = [lower_char a]"
| "latin1_lower [] = []"

definition sample_externals :: externals where
  "sample_externals =
    \<lparr>extractIntentKeywords = (\<lambda>text cid. [cid]),
     extractOpenApiIntentKeywords = (\<lambda>op. [o_operationId op]),
     schemaToTypeScript = (\<lambda>schema name schemas. ''unknown''),
     toLowerCase = latin1_lower,
     json_stringify = (\<lambda>v. ''{}''),
     to_string = (\<lambda>v. [])\<rparr>"

text \<open>
  The identifier made of \<^verbatim>\<open>get\<close>, the capital letter E with acute accent (U+00C9) and
  \<^verbatim>\<open>tat\<close>; its lowercase form, with U+00E9; and the lowercase form with a dot before that
  letter.
\<close>

definition get_Etat :: string where
  "get_Etat = ''get'' @ [CHR 0xC3, CHR 0x89] @ ''tat''"

definition get_etat :: string where
  "get_etat = ''get'' @ [CHR 0xC3, CHR 0xA9] @ ''tat''"

definition get_dot_etat :: string where
  "get_dot_etat = ''get.'' @ [CHR 0xC3, CHR 0xA9] @ ''tat''"


definition plain_options :: "unit convert_options" where
  "plain_options = \<lparr>apiName = None, intentGenerator = None\<rparr>"

text \<open>A stubbed provider: it answers with the identifier and counts its calls in the world.\<close>

definition counting_generator :: "nat intent_generator" where
  "counting_generator cid d w = (Inr [cid], Suc w)"

definition counting_options :: "nat convert_options" where
  "counting_options = \<lparr>apiName = None, intentGenerator = Some counting_generator\<rparr>"

definition user_operation :: "string \<Rightarrow> (string \<times> string list) list list option \<Rightarrow> operation" where
  "user_operation operationId security =
    \<lparr>o_operationId = operationId, o_method = ''GET'', o_path = ''/user'',
     o_summary = None, o_description = None, o_parameters = None, o_requestBody = None,
     o_responses = None, o_security = security\<rparr>"

definition users_doc :: "schemas \<Rightarrow> operation list \<Rightarrow> openapi_document" where
  "users_doc schemas operations =
    \<lparr>od_title = ''Users'', od_description = None, od_version = None, od_baseUrl = None,
     od_auth = Some \<lparr>a_type = ''bearer'', a_flows = None\<rparr>,
     od_schemas = schemas, od_operations = operations\<rparr>"

text \<open>Two operations whose identifiers differ and normalize to the same string.\<close>

definition colliding_doc :: openapi_document where
  "colliding_doc = users_doc [] [user_operation ''getUser'' None, user_operation ''get_user'' None]"

definition distinct_doc :: openapi_document where
  "distinct_doc =
    users_doc [(''User'', typed ''object'')]
      [user_operation ''getUser'' (Some [[(''bearerAuth'', [])]]), user_operation ''users_create'' None]"

definition sample_capability :: capability where
  "sample_capability =
    \<lparr>c_name = ''Create Message'',
     c_meta = \<lparr>cm_id = ''messages.create'', cm_transport = ''HTTP POST /v1/messages'',
               cm_auth = None, cm_idempotent = Some False, cm_deprecated = None\<rparr>,
     c_intention = Some ''Send a conversation and receive a response.'',
     c_authIntention = None, c_input = None, c_output = None, c_logicConstraints = None,
     c_errors = None, c_example = None, c_rawContent = None\<rparr>"

definition sample_mapi_doc :: mapi_document where
  "sample_mapi_doc =
    \<lparr>d_title = ''Messages'', d_description = None,
     d_meta = \<lparr>m_version = None, m_base_url = None, m_auth = Some ''bearer'',
               m_auth_header = None, m_auth_flow = None, m_auth_scopes = None,
               m_auth_docs_url = None\<rparr>,
     d_globalTypes = None, d_capabilities = [sample_capability]\<rparr>"

text \<open>What the generators return for the sample documents, the file bodies left unexpanded.\<close>

definition sample_mapi_output :: skill_output where
  "sample_mapi_output =
    \<lparr>so_skillMd =
       generateSkillMd ''Messages'' None (d_meta sample_mapi_doc)
         (mapi_index sample_externals sample_mapi_doc plain_options ())
         (map fst (mapi_common sample_mapi_doc)),
     so_common = mapi_common sample_mapi_doc,
     so_capabilities = [(''messages.create.md'', generateCapabilityFile sample_capability)]\<rparr>"

definition distinct_doc_output :: skill_output where
  "distinct_doc_output =
    \<lparr>so_skillMd =
       generateSkillMd ''Users'' None (openapi_meta distinct_doc)
         (openapi_index sample_externals distinct_doc plain_options ())
         (map fst (openapi_common sample_externals distinct_doc)),
     so_common = openapi_common sample_externals distinct_doc,
     so_capabilities =
       [(''get.user.md'',
         generateCapabilityFromOperation sample_externals
           (user_operation ''getUser'' (Some [[(''bearerAuth'', [])]])) distinct_doc),
        (''users.create.md'',
         generateCapabilityFromOperation sample_externals
           (user_operation ''users_create'' None) distinct_doc)]\<rparr>"


section \<open>Strings\<close>

text \<open>\<open>str_includes\<close> is the substring test and \<open>startsWith\<close> the prefix test.\<close>

lemma startsWith_iff: "startsWith s p \<longleftrightarrow> (\<exists>b. s = p @ b)"
proof
  assume "startsWith s p"
  then have "s = p @ drop (length p) s"
    unfolding startsWith_def by (metis append_take_drop_id)
  then show "\<exists>b. s = p @ b" ..
next
  assume "\<exists>b. s = p @ b"
  then show "startsWith s p" by (auto simp: startsWith_def)
qed

lemma str_includes_iff: "str_includes s sub \<longleftrightarrow> (\<exists>a b. s = a @ sub @ b)"
proof (induction s)
  case Nil
  then show ?case by auto
next
  case (Cons c cs)
  show ?case
  proof
    assume "str_includes (c # cs) sub"
    then consider "startsWith (c # cs) sub" | "str_includes cs sub" by auto
    then show "\<exists>a b. c # cs = a @ sub @ b"
    proof cases
      case 1
      then obtain b where "c # cs = sub @ b" by (auto simp: startsWith_iff)
      then have "c # cs = [] @ sub @ b" by simp
      then show ?thesis by blast
    next
      case 2
      then obtain a b where "cs = a @ sub @ b" using Cons.IH by auto
      then have "c # cs = (c # a) @ sub @ b" by simp
      then show ?thesis by blast
    qed
  next
    assume "\<exists>a b. c # cs = a @ sub @ b"
    then obtain a b where ab: "c # cs = a @ sub @ b" by auto
    show "str_includes (c # cs) sub"
    proof (cases a)
      case Nil
      with ab have "startsWith (c # cs) sub" by (auto simp: startsWith_iff)
      then show ?thesis by simp
    next
      case (Cons x xs)
      with ab have "cs = xs @ sub @ b" by simp
      then have "str_includes cs sub" using Cons.IH by blast
      then show ?thesis by simp
    qed
  qed
qed

section \<open>Example synthesis: termination and the depth ceiling\<close>

text \<open>Every recursive call has a smaller rank than its caller.\<close>

lemma call_rank_decreases:
  "generateExampleFromSchema_example_fields_rel x y \<Longrightarrow>
     (call_rank x, call_rank y) \<in> less_than <*lex*> less_than"
  by (erule generateExampleFromSchema_example_fields_rel.cases) (auto simp: call_rank_def)

text \<open>
  C1. For every schema node, every table of named schemas (cyclic ones included) and every
  starting depth, the call \<open>generateExampleFromSchema X schema schemas depth propName\<close> lies
  in the accessible part of the call relation of the synthesis routine, that is, the
  recursion started by it is well-founded and the call returns; and once the depth
  exceeds the ceiling of 3 the value returned is \<open>null\<close>.
\<close>

theorem example_synthesis_terminates:
  "generateExampleFromSchema_example_fields_dom (Inl (X, schema, schemas, depth, propName)) \<and>
   (depth > 3 \<longrightarrow> generateExampleFromSchema X schema schemas depth propName = JNull)"
proof
  let ?R = "\<lambda>a b. (a, b) \<in> inv_image (less_than <*lex*> less_than) call_rank"
  have "wf (inv_image (less_than <*lex*> less_than) call_rank)"
    by (intro wf_inv_image wf_lex_prod wf_less_than)
  then have "wfP ?R"
    by (simp add: wfp_def inv_image_def)
  then have "Wellfounded.accp ?R (Inl (X, schema, schemas, depth, propName))"
    by (rule accp_wfpD)
  moreover have "generateExampleFromSchema_example_fields_rel \<le> ?R"
    by (auto simp: inv_image_def dest: call_rank_decreases)
  ultimately show "generateExampleFromSchema_example_fields_dom (Inl (X, schema, schemas, depth, propName))"
    using accp_subset by blast
next
  show "depth > 3 \<longrightarrow> generateExampleFromSchema X schema schemas depth propName = JNull"
    by (simp add: generateExampleFromSchema.simps(1))
qed

theorem example_synthesis_terminates_witness:
  "generateExampleFromSchema_example_fields_dom
      (Inl (sample_externals, ref_to ''#/components/schemas/Node'', node_table, 4, None)) \<and>
   (4::nat) > 3 \<and>
   generateExampleFromSchema sample_externals (ref_to ''#/components/schemas/Node'')
     node_table 4 None = JNull \<and>
   generateExampleFromSchema sample_externals (ref_to ''#/components/schemas/Node'')
     node_table 0 None = JObj [(''next'', JObj [])]"
  using example_synthesis_terminates
    [of sample_externals "ref_to ''#/components/schemas/Node''" node_table 4 None]
  by (simp add: generateExampleFromSchema.simps(1) ref_to_def node_table_def object_of_def
      ref_name_def first_enum_def required_of_def split_pop_def lookup_schema_def
      set_field_def)

section \<open>Operation identifiers\<close>

lemma upper_not_lower: "is_upper c \<Longrightarrow> \<not> is_lower c"
  by (auto simp: is_upper_def is_lower_def upper_chars_def lower_chars_def)

text \<open>
  The regular expression consumes both letters of a match; since the second one is
  uppercase it cannot start the next match, so no transition is missed.
\<close>

lemma camel_to_dots_transitions: "camel_to_dots s = dots_at_transitions s"
proof (induction s rule: camel_to_dots.induct)
  case (1 a b cs)
  show ?case
  proof (cases "is_lower a \<and> is_upper b")
    case True
    then have "\<not> is_lower b" by (simp add: upper_not_lower)
    then have "dots_at_transitions (b # cs) = b # dots_at_transitions cs"
      by (cases cs) simp_all
    with True "1.IH"(1) show ?thesis by simp
  next
    case False
    with "1.IH"(2) show ?thesis by auto
  qed
qed simp_all

lemma replace_first_underscore_spec: "replace_first_underscore s = first_underscore_to_dot s"
  by (induction s) (simp_all add: first_underscore_to_dot_def)

lemma includes_dot: "str_includes s ''.'' \<longleftrightarrow> CHR ''.'' \<in> set s"
  by (induction s) (auto simp: startsWith_def)

text \<open>The stand-in lowercases ASCII text as the built-in does.\<close>

lemma latin1_lower_ascii: "is_ascii s \<Longrightarrow> latin1_lower s = ascii_lower s"
  by (induction s rule: latin1_lower.induct)
     (auto simp: is_ascii_def ascii_lower_def latin1_small_tail_def)

lemma sample_toLowerCase: "toLowerCase sample_externals s = latin1_lower s"
  by (simp add: sample_externals_def)

lemma lowers_ascii_sample: "lowers_ascii sample_externals"
  by (simp add: lowers_ascii_def sample_toLowerCase latin1_lower_ascii)

lemmas normalize_eval =
  normalizeOperationId_def startsWith_def sample_toLowerCase lower_char_def
  is_lower_def is_upper_def upper_chars_def lower_chars_def latin1_small_tail_def

lemmas ascii_eval =
  is_ascii_def ascii_lower_def lower_char_def is_lower_def is_upper_def upper_chars_def
  lower_chars_def startsWith_def

text \<open>
  C2, as amended. For every input string and whatever the built-in \<^verbatim>\<open>toLowerCase\<close> does to
  letters outside ASCII: an identifier with a dot is returned lowercased; any other
  identifier gets a dot at each position where one of the letters \<^verbatim>\<open>a\<close> to \<^verbatim>\<open>z\<close> is
  followed by one of the letters \<^verbatim>\<open>A\<close> to \<^verbatim>\<open>Z\<close> (and at no other position), is
  lowercased, and then has its first underscore turned into a dot. The three identifiers
  of the specification normalize as stated.
\<close>

theorem normalizeOperationId_spec:
  "normalizeOperationId X s = spec_normalizeOperationId X s \<and>
   (lowers_ascii X \<longrightarrow>
      normalizeOperationId X ''messages_count_tokens'' = ''messages.count_tokens'' \<and>
      normalizeOperationId X ''getUserProfile'' = ''get.user.profile'' \<and>
      normalizeOperationId X ''Already.Dotted'' = ''already.dotted'')"
proof (intro conjI impI)
  show "normalizeOperationId X s = spec_normalizeOperationId X s"
    by (simp add: normalizeOperationId_def spec_normalizeOperationId_def includes_dot
        camel_to_dots_transitions replace_first_underscore_spec)
next
  assume "lowers_ascii X"
  then have lower: "toLowerCase X t = ascii_lower t" if "is_ascii t" for t
    using that by (simp add: lowers_ascii_def)
  have "toLowerCase X ''messages_count_tokens'' = ''messages_count_tokens''"
    by (subst lower) (simp_all add: ascii_eval)
  then show "normalizeOperationId X ''messages_count_tokens'' = ''messages.count_tokens''"
    by (simp add: normalizeOperationId_def ascii_eval)
  have "camel_to_dots ''getUserProfile'' = ''get.User.Profile''"
    by (simp add: ascii_eval)
  moreover have "toLowerCase X ''get.User.Profile'' = ''get.user.profile''"
    by (subst lower) (simp_all add: ascii_eval)
  ultimately show "normalizeOperationId X ''getUserProfile'' = ''get.user.profile''"
    by (simp add: normalizeOperationId_def startsWith_def)
  have "toLowerCase X ''Already.Dotted'' = ''already.dotted''"
    by (subst lower) (simp_all add: ascii_eval)
  then show "normalizeOperationId X ''Already.Dotted'' = ''already.dotted''"
    by (simp add: normalizeOperationId_def startsWith_def)
qed

theorem normalizeOperationId_spec_witness:
  "lowers_ascii sample_externals \<and>
   normalizeOperationId sample_externals ''users_create'' =
     spec_normalizeOperationId sample_externals ''users_create'' \<and>
   spec_normalizeOperationId sample_externals ''users_create'' = ''users.create'' \<and>
   normalizeOperationId sample_externals ''messages_count_tokens'' = ''messages.count_tokens'' \<and>
   normalizeOperationId sample_externals ''getUserProfile'' = ''get.user.profile'' \<and>
   normalizeOperationId sample_externals ''Already.Dotted'' = ''already.dotted''"
  using normalizeOperationId_spec [of sample_externals "''users_create''"] lowers_ascii_sample
  by (simp add: normalize_eval)

text \<open>
  The claim as stated fails for the identifier \<open>get_Etat\<close>: its letter \<^verbatim>\<open>t\<close> is lowercase
  and the letter after it, U+00C9, is uppercase (lowercasing changes it into U+00E9), yet
  no dot is inserted between them: the result is \<open>get_etat\<close>, not \<open>get_dot_etat\<close>.
\<close>

theorem normalizeOperationId_spec_counterexample:
  "toLowerCase sample_externals [CHR 0xC3, CHR 0x89] = [CHR 0xC3, CHR 0xA9] \<and>
   toLowerCase sample_externals ''t'' = ''t'' \<and>
   \<not> str_includes get_Etat ''.'' \<and>
   normalizeOperationId sample_externals get_Etat = get_etat \<and>
   normalizeOperationId sample_externals get_Etat \<noteq> get_dot_etat"
  by (simp add: normalize_eval get_Etat_def get_etat_def get_dot_etat_def
      latin1_small_tail_def latin1_capital_tails_def latin1_small_tails_def)

section \<open>Example synthesis: objects\<close>

lemma map_fst_assign:
  "map fst (assign obj k v) = (if k \<in> fst ` set obj then map fst obj else map fst obj @ [k])"
proof (induction obj)
  case Nil
  then show ?case by simp
next
  case (Cons a obj)
  obtain k' v' where a: "a = (k', v')" by (cases a)
  show ?case using Cons.IH by (auto simp: a)
qed

lemma keys_assign: "fst ` set (assign obj k v) = insert k (fst ` set obj)"
proof -
  have "set (map fst (assign obj k v)) = insert k (set (map fst obj))"
    unfolding map_fst_assign by auto
  then show ?thesis by simp
qed



























section \<open>Example synthesis: numbers\<close>

lemma max_tokens_mentions: "str_includes ''max_tokens'' ''token''"
  by (simp add: startsWith_def)

lemma integer_example_eq:
  "integer_example X schema propName =
     (if mentions_token X propName then JNum 1024 else minimum_or schema 100)"
proof (cases propName)
  case None
  then show ?thesis by (simp add: integer_example_def mentions_token_def)
next
  case (Some p)
  show ?thesis
  proof (cases "str_includes (toLowerCase X p) ''token''")
    case True
    with Some show ?thesis
      by (simp add: integer_example_def mentions_token_def Let_def)
  next
    case False
    with max_tokens_mentions have "toLowerCase X p \<noteq> ''max_tokens''" by auto
    with False Some show ?thesis
      by (simp add: integer_example_def mentions_token_def Let_def)
  qed
qed

text \<open>
  C5, as amended. For a primitive node without explicit example, synthesized within the
  depth ceiling: an \<^verbatim>\<open>integer\<close> whose field name contains \<^verbatim>\<open>token\<close> (in any letter case)
  yields 1024, any other integer yields its declared minimum, or 100 without one; a
  \<^verbatim>\<open>number\<close> whose field name is \<^verbatim>\<open>temperature\<close> yields 0.7, any other number yields its
  declared minimum, or 1 without one. The name is consulted before the minimum and is
  compared in the lowercase form that the built-in \<^verbatim>\<open>toLowerCase\<close> gives it.
\<close>

theorem numeric_example:
  "depth \<le> 3 \<Longrightarrow> primitive_node schema \<Longrightarrow>
   (s_type schema = Some ''integer'' \<longrightarrow>
      generateExampleFromSchema X schema schemas depth propName =
        (if mentions_token X propName then JNum 1024
         else case s_minimum schema of Some m \<Rightarrow> JNum m | None \<Rightarrow> JNum 100)) \<and>
   (s_type schema = Some ''number'' \<longrightarrow>
      generateExampleFromSchema X schema schemas depth propName =
        (if named_temperature X propName then JNum (7 / 10)
         else case s_minimum schema of Some m \<Rightarrow> JNum m | None \<Rightarrow> JNum 1))"
  by (simp add: generateExampleFromSchema.simps(1) primitive_node_def primitive_example_def
      integer_example_eq number_example_def named_temperature_def minimum_or_def)

theorem numeric_example_witness:
  "(0::nat) \<le> 3 \<and> primitive_node (integer_with_minimum 7) \<and>
   s_type (integer_with_minimum 7) = Some ''integer'' \<and>
   generateExampleFromSchema sample_externals (integer_with_minimum 7) [] 0 (Some ''count'')
     = JNum 7"
proof -
  have depth: "(0::nat) \<le> 3" by simp
  have node: "primitive_node (integer_with_minimum 7)"
    by (simp add: primitive_node_def integer_with_minimum_def ref_name_def first_enum_def)
  have "\<not> mentions_token sample_externals (Some ''count'')"
    by (simp add: mentions_token_def normalize_eval)
  with numeric_example [OF depth node, of sample_externals "[]" "Some ''count''"] depth node
  show ?thesis
    by (simp add: integer_with_minimum_def)
qed

text \<open>
  The claim as stated fails for an integer that declares a minimum and is named
  \<^verbatim>\<open>max_tokens\<close>: the value is 1024, not the minimum.
\<close>

theorem numeric_example_counterexample:
  "primitive_node (integer_with_minimum 1) \<and>
   s_type (integer_with_minimum 1) = Some ''integer'' \<and>
   s_minimum (integer_with_minimum 1) = Some 1 \<and>
   generateExampleFromSchema sample_externals (integer_with_minimum 1) [] 0 (Some ''max_tokens'')
     = JNum 1024 \<and>
   generateExampleFromSchema sample_externals (integer_with_minimum 1) [] 0 (Some ''max_tokens'')
     \<noteq> JNum 1"
  by (simp add: generateExampleFromSchema.simps(1) primitive_node_def integer_with_minimum_def
      ref_name_def first_enum_def primitive_example_def integer_example_def normalize_eval)

section \<open>Example synthesis: references without a target\<close>





section \<open>Dependencies\<close>

text \<open>
  C4, as amended. A MAPI capability depends on \<^verbatim>\<open>auth\<close> exactly when its own auth setting
  is \<^verbatim>\<open>required\<close>, or it has no auth setting and the document's auth scheme is not
  \<^verbatim>\<open>none\<close>. An OpenAPI operation depends on \<^verbatim>\<open>auth\<close> exactly when its own security list
  is present and not empty; the auth descriptor of the document is not consulted.
\<close>

theorem auth_dependency:
  "(''auth'' \<in> set (determineMapiDependencies cap doc) \<longleftrightarrow>
      cm_auth (c_meta cap) = Some ''required'' \<or>
      (cm_auth (c_meta cap) = None \<and> m_auth (d_meta doc) \<noteq> Some ''none'')) \<and>
   (''auth'' \<in> set (determineOpenApiDependencies op odoc) \<longleftrightarrow>
      o_security op \<noteq> None \<and> o_security op \<noteq> Some [])"
proof -
  have "''auth'' \<in> set (determineMapiDependencies cap doc) \<longleftrightarrow>
      cm_auth (c_meta cap) = Some ''required'' \<or>
      (cm_auth (c_meta cap) = None \<and> m_auth (d_meta doc) \<noteq> Some ''none'')"
    by (simp add: determineMapiDependencies_def split: option.splits)
  moreover have "''auth'' \<in> set (determineOpenApiDependencies op odoc) \<longleftrightarrow>
      o_security op \<noteq> None \<and> o_security op \<noteq> Some []"
    by (cases "o_security op") (simp_all add: determineOpenApiDependencies_def)
  ultimately show ?thesis by simp
qed

theorem auth_dependency_witness:
  "cm_auth (c_meta sample_capability) = None \<and>
   m_auth (d_meta sample_mapi_doc) = Some ''bearer'' \<and>
   ''auth'' \<in> set (determineMapiDependencies sample_capability sample_mapi_doc) \<and>
   o_security (user_operation ''getUser'' (Some [[(''bearerAuth'', [])]])) \<noteq> None \<and>
   ''auth'' \<in> set (determineOpenApiDependencies
                     (user_operation ''getUser'' (Some [[(''bearerAuth'', [])]])) distinct_doc)"
  using auth_dependency [of sample_capability sample_mapi_doc
      "user_operation ''getUser'' (Some [[(''bearerAuth'', [])]])" distinct_doc]
  by (simp add: sample_capability_def sample_mapi_doc_def user_operation_def)

text \<open>
  The claim as stated fails for an OpenAPI operation without a security list of its own in
  a document that declares bearer authentication.
\<close>

theorem auth_dependency_counterexample:
  "map_option a_type (od_auth colliding_doc) = Some ''bearer'' \<and>
   o_security (user_operation ''getUser'' None) = None \<and>
   user_operation ''getUser'' None \<in> set (od_operations colliding_doc) \<and>
   ''auth'' \<notin> set (determineOpenApiDependencies (user_operation ''getUser'' None) colliding_doc)"
  by (simp add: colliding_doc_def users_doc_def user_operation_def determineOpenApiDependencies_def)

section \<open>The generators\<close>

subsection \<open>What the loops build\<close>

lemma files_listed_step:
  "files_listed fs index \<Longrightarrow>
   files_listed (assign fs fileName body)
     (index @ [\<lparr>ie_id = cid, ie_intentKeywords = kws,
                ie_filePath = ''capabilities/'' @ fileName, ie_dependencies = deps\<rparr>])"
  unfolding files_listed_def keys_assign by auto

lemma mapi_capabilities_result:
  "mapi_capabilities X options doc caps (fs, index) w = (Inr (fs', index'), w') \<Longrightarrow>
   (files_listed fs index \<longrightarrow> files_listed fs' index') \<and>
   map ie_id index' = map ie_id index @ map (\<lambda>cap. cm_id (c_meta cap)) caps"
proof (induction caps arbitrary: fs index w)
  case Nil
  then show ?case by simp
next
  case (Cons cap caps)
  obtain k1 w1 where r1: "mapi_keywords X options cap w = (k1, w1)"
    by (cases "mapi_keywords X options cap w")
  show ?case
  proof (cases k1)
    case (Inl e)
    then show ?thesis using Cons.prems r1 by (simp add: Let_def)
  next
    case (Inr kws)
    let ?fileName = "cm_id (c_meta cap) @ ''.md''"
    let ?fs = "assign fs ?fileName (generateCapabilityFile cap)"
    let ?index = "index @ [\<lparr>ie_id = cm_id (c_meta cap), ie_intentKeywords = kws,
                         ie_filePath = ''capabilities/'' @ ?fileName,
                         ie_dependencies = determineMapiDependencies cap doc\<rparr>]"
    have "mapi_capabilities X options doc caps (?fs, ?index) w1 = (Inr (fs', index'), w')"
      using Cons.prems r1 Inr by (simp add: Let_def)
    from Cons.IH [OF this] files_listed_step [of fs index ?fileName]
    show ?thesis by simp
  qed
qed

lemma openapi_operations_result:
  "openapi_operations X options doc ops (fs, index) w = (Inr (fs', index'), w') \<Longrightarrow>
   (files_listed fs index \<longrightarrow> files_listed fs' index') \<and>
   map ie_id index' = map ie_id index @ map (\<lambda>op. normalizeOperationId X (o_operationId op)) ops \<and>
   map ie_dependencies index' =
     map ie_dependencies index @ map (\<lambda>op. determineOpenApiDependencies op doc) ops"
proof (induction ops arbitrary: fs index w)
  case Nil
  then show ?case by simp
next
  case (Cons op ops)
  obtain k1 w1 where r1: "openapi_keywords X options op w = (k1, w1)"
    by (cases "openapi_keywords X options op w")
  show ?case
  proof (cases k1)
    case (Inl e)
    then show ?thesis using Cons.prems r1 by (simp add: Let_def)
  next
    case (Inr kws)
    let ?fileName = "normalizeOperationId X (o_operationId op) @ ''.md''"
    let ?fs = "assign fs ?fileName (generateCapabilityFromOperation X op doc)"
    let ?index = "index @ [\<lparr>ie_id = normalizeOperationId X (o_operationId op),
                         ie_intentKeywords = kws,
                         ie_filePath = ''capabilities/'' @ ?fileName,
                         ie_dependencies = determineOpenApiDependencies op doc\<rparr>]"
    have "openapi_operations X options doc ops (?fs, ?index) w1 = (Inr (fs', index'), w')"
      using Cons.prems r1 Inr by (simp add: Let_def)
    from Cons.IH [OF this] files_listed_step [of fs index ?fileName]
    show ?thesis by simp
  qed
qed

text \<open>A successful run returns the file table of its loop and renders the loop's index.\<close>

lemma generateSkillFromMapi_Inr:
  assumes "fst (generateSkillFromMapi X doc options w) = Inr out"
  obtains fs index w' where
    "mapi_capabilities X options doc (d_capabilities doc) ([], []) w = (Inr (fs, index), w')"
    "so_capabilities out = fs" "mapi_index X doc options w = index"
proof -
  obtain r w1 where r: "mapi_capabilities X options doc (d_capabilities doc) ([], []) w = (r, w1)"
    by (cases "mapi_capabilities X options doc (d_capabilities doc) ([], []) w")
  show ?thesis
  proof (cases r)
    case (Inl e)
    then show ?thesis using assms r by (simp add: generateSkillFromMapi_def Let_def)
  next
    case (Inr p)
    obtain fs index where p: "p = (fs, index)" by (cases p)
    show ?thesis
      using assms r Inr p that [of fs index w1]
      by (auto simp: generateSkillFromMapi_def Let_def mapi_index_def index_of_def)
  qed
qed

lemma generateSkillFromOpenApi_Inr:
  assumes "fst (generateSkillFromOpenApi X doc options w) = Inr out"
  obtains fs index w' where
    "openapi_operations X options doc (od_operations doc) ([], []) w = (Inr (fs, index), w')"
    "so_capabilities out = fs" "openapi_index X doc options w = index"
proof -
  obtain r w1 where r: "openapi_operations X options doc (od_operations doc) ([], []) w = (r, w1)"
    by (cases "openapi_operations X options doc (od_operations doc) ([], []) w")
  show ?thesis
  proof (cases r)
    case (Inl e)
    then show ?thesis using assms r by (simp add: generateSkillFromOpenApi_def Let_def)
  next
    case (Inr p)
    obtain fs index where p: "p = (fs, index)" by (cases p)
    show ?thesis
      using assms r Inr p that [of fs index w1]
      by (auto simp: generateSkillFromOpenApi_def Let_def openapi_index_def index_of_def)
  qed
qed

lemmas generator_eval =
  generateSkillFromMapi_def generateSkillFromOpenApi_def mapi_index_def openapi_index_def
  index_of_def mapi_keywords_def openapi_keywords_def Let_def

subsection \<open>Identifiers in the index\<close>

text \<open>
  C6, as amended. The index of a successful run lists, in document order, the identifiers
  of the capabilities as given (MAPI) and the normalized identifiers of the operations
  (OpenAPI); hence its identifiers are pairwise distinct exactly when those are. Nothing
  separates operations whose identifiers normalize to the same string.
\<close>

theorem index_ids:
  "(fst (generateSkillFromMapi X doc options w) = Inr out \<longrightarrow>
      map ie_id (mapi_index X doc options w) = map (\<lambda>cap. cm_id (c_meta cap)) (d_capabilities doc) \<and>
      (distinct (map ie_id (mapi_index X doc options w)) \<longleftrightarrow>
         distinct (map (\<lambda>cap. cm_id (c_meta cap)) (d_capabilities doc)))) \<and>
   (fst (generateSkillFromOpenApi X odoc options w) = Inr out' \<longrightarrow>
      map ie_id (openapi_index X odoc options w) =
        map (\<lambda>op. normalizeOperationId X (o_operationId op)) (od_operations odoc) \<and>
      (distinct (map ie_id (openapi_index X odoc options w)) \<longleftrightarrow>
         distinct (map (\<lambda>op. normalizeOperationId X (o_operationId op)) (od_operations odoc))))"
proof (intro conjI impI)
  assume "fst (generateSkillFromMapi X doc options w) = Inr out"
  then obtain fs index w' where
    "mapi_capabilities X options doc (d_capabilities doc) ([], []) w = (Inr (fs, index), w')"
    "so_capabilities out = fs" "mapi_index X doc options w = index"
    by (rule generateSkillFromMapi_Inr)
  then show ids: "map ie_id (mapi_index X doc options w) =
      map (\<lambda>cap. cm_id (c_meta cap)) (d_capabilities doc)"
    using mapi_capabilities_result [of X options doc "d_capabilities doc" "[]" "[]" w fs index w']
    by simp
  show "distinct (map ie_id (mapi_index X doc options w)) \<longleftrightarrow>
      distinct (map (\<lambda>cap. cm_id (c_meta cap)) (d_capabilities doc))"
    by (simp only: ids)
next
  assume "fst (generateSkillFromOpenApi X odoc options w) = Inr out'"
  then obtain fs index w' where
    "openapi_operations X options odoc (od_operations odoc) ([], []) w = (Inr (fs, index), w')"
    "so_capabilities out' = fs" "openapi_index X odoc options w = index"
    by (rule generateSkillFromOpenApi_Inr)
  then show ids: "map ie_id (openapi_index X odoc options w) =
      map (\<lambda>op. normalizeOperationId X (o_operationId op)) (od_operations odoc)"
    using openapi_operations_result [of X options odoc "od_operations odoc" "[]" "[]" w fs index w']
    by simp
  show "distinct (map ie_id (openapi_index X odoc options w)) \<longleftrightarrow>
      distinct (map (\<lambda>op. normalizeOperationId X (o_operationId op)) (od_operations odoc))"
    by (simp only: ids)
qed

lemma sample_mapi_run:
  "fst (generateSkillFromMapi sample_externals sample_mapi_doc plain_options ()) =
     Inr sample_mapi_output"
  by (simp add: generator_eval sample_mapi_output_def sample_mapi_doc_def plain_options_def
      or_else_def)
     (simp add: sample_capability_def)

lemma distinct_doc_run:
  "fst (generateSkillFromOpenApi sample_externals distinct_doc plain_options ()) =
     Inr distinct_doc_output"
  by (simp add: generator_eval distinct_doc_output_def distinct_doc_def users_doc_def
      plain_options_def or_else_def)
     (simp add: user_operation_def normalize_eval)

theorem index_ids_witness:
  "fst (generateSkillFromMapi sample_externals sample_mapi_doc plain_options ()) =
     Inr sample_mapi_output \<and>
   fst (generateSkillFromOpenApi sample_externals distinct_doc plain_options ()) =
     Inr distinct_doc_output \<and>
   map ie_id (mapi_index sample_externals sample_mapi_doc plain_options ()) = [''messages.create''] \<and>
   distinct (map ie_id (mapi_index sample_externals sample_mapi_doc plain_options ())) \<and>
   map ie_id (openapi_index sample_externals distinct_doc plain_options ())
     = [''get.user'', ''users.create''] \<and>
   distinct (map ie_id (openapi_index sample_externals distinct_doc plain_options ()))"
proof -
  note run = sample_mapi_run distinct_doc_run
  from index_ids [of sample_externals sample_mapi_doc plain_options "()" sample_mapi_output
      distinct_doc distinct_doc_output] run
  have "map ie_id (mapi_index sample_externals sample_mapi_doc plain_options ()) =
      map (\<lambda>cap. cm_id (c_meta cap)) (d_capabilities sample_mapi_doc)"
    and "map ie_id (openapi_index sample_externals distinct_doc plain_options ()) =
      map (\<lambda>op. normalizeOperationId sample_externals (o_operationId op))
        (od_operations distinct_doc)"
    by blast+
  then have "map ie_id (mapi_index sample_externals sample_mapi_doc plain_options ()) =
      [''messages.create'']"
    and "map ie_id (openapi_index sample_externals distinct_doc plain_options ()) =
      [''get.user'', ''users.create'']"
    by (simp_all add: sample_mapi_doc_def sample_capability_def distinct_doc_def users_doc_def
        user_operation_def normalize_eval)
  with run show ?thesis by simp
qed

text \<open>
  The claim as stated fails for the operations \<^verbatim>\<open>getUser\<close> and \<^verbatim>\<open>get_user\<close>: the run
  succeeds and both index entries carry the identifier \<^verbatim>\<open>get.user\<close>.
\<close>

theorem index_ids_counterexample:
  "distinct (map o_operationId (od_operations colliding_doc)) \<and>
   \<not> isl (fst (generateSkillFromOpenApi sample_externals colliding_doc plain_options ())) \<and>
   map ie_id (openapi_index sample_externals colliding_doc plain_options ())
     = [''get.user'', ''get.user''] \<and>
   \<not> distinct (map ie_id (openapi_index sample_externals colliding_doc plain_options ()))"
  by (simp add: generator_eval colliding_doc_def users_doc_def plain_options_def)
     (simp add: user_operation_def normalize_eval)

subsection \<open>Files named by the index\<close>

text \<open>
  C10. For every document and every entry of the index of a successful run of either
  generator, the entry's \<^verbatim>\<open>filePath\<close> is \<^verbatim>\<open>capabilities/\<close> followed by a key of the returned
  table of capability files.
\<close>

theorem index_files_present:
  "(fst (generateSkillFromMapi X doc options w) = Inr out \<longrightarrow>
      files_listed (so_capabilities out) (mapi_index X doc options w)) \<and>
   (fst (generateSkillFromOpenApi X odoc options w) = Inr out' \<longrightarrow>
      files_listed (so_capabilities out') (openapi_index X odoc options w))"
proof (intro conjI impI)
  assume "fst (generateSkillFromMapi X doc options w) = Inr out"
  then obtain fs index w' where
    "mapi_capabilities X options doc (d_capabilities doc) ([], []) w = (Inr (fs, index), w')"
    "so_capabilities out = fs" "mapi_index X doc options w = index"
    by (rule generateSkillFromMapi_Inr)
  then show "files_listed (so_capabilities out) (mapi_index X doc options w)"
    using mapi_capabilities_result [of X options doc "d_capabilities doc" "[]" "[]" w fs index w']
    by (simp add: files_listed_def)
next
  assume "fst (generateSkillFromOpenApi X odoc options w) = Inr out'"
  then obtain fs index w' where
    "openapi_operations X options odoc (od_operations odoc) ([], []) w = (Inr (fs, index), w')"
    "so_capabilities out' = fs" "openapi_index X odoc options w = index"
    by (rule generateSkillFromOpenApi_Inr)
  then show "files_listed (so_capabilities out') (openapi_index X odoc options w)"
    using openapi_operations_result [of X options odoc "od_operations odoc" "[]" "[]" w fs index w']
    by (simp add: files_listed_def)
qed

theorem index_files_present_witness:
  "fst (generateSkillFromMapi sample_externals sample_mapi_doc plain_options ()) =
     Inr sample_mapi_output \<and>
   files_listed (so_capabilities sample_mapi_output)
     (mapi_index sample_externals sample_mapi_doc plain_options ()) \<and>
   map ie_filePath (mapi_index sample_externals sample_mapi_doc plain_options ())
     = [''capabilities/messages.create.md''] \<and>
   map fst (so_capabilities sample_mapi_output) = [''messages.create.md''] \<and>
   fst (generateSkillFromOpenApi sample_externals distinct_doc plain_options ()) =
     Inr distinct_doc_output \<and>
   files_listed (so_capabilities distinct_doc_output)
     (openapi_index sample_externals distinct_doc plain_options ())"
proof -
  note run = sample_mapi_run distinct_doc_run
  from index_files_present [of sample_externals sample_mapi_doc plain_options "()"
      sample_mapi_output distinct_doc distinct_doc_output] run
  have "files_listed (so_capabilities sample_mapi_output)
      (mapi_index sample_externals sample_mapi_doc plain_options ())"
    and "files_listed (so_capabilities distinct_doc_output)
      (openapi_index sample_externals distinct_doc plain_options ())"
    by blast+
  moreover have "map ie_filePath (mapi_index sample_externals sample_mapi_doc plain_options ())
      = [''capabilities/messages.create.md'']"
    by (simp add: generator_eval sample_mapi_doc_def plain_options_def)
       (simp add: sample_capability_def)
  moreover have "map fst (so_capabilities sample_mapi_output) = [''messages.create.md'']"
    by (simp add: sample_mapi_output_def)
  ultimately show ?thesis using run by simp
qed

subsection \<open>The shared-types dependency of OpenAPI operations\<close>

text \<open>
  C8. For an OpenAPI document with a non-empty table of named schemas the dependency list
  computed for every operation contains \<^verbatim>\<open>schemas/types\<close>, whatever the operation refers
  to; with an empty table no dependency list contains it. The same holds for the
  dependency lists in the index of a successful run.
\<close>

theorem openapi_schema_dependency:
  "(''schemas/types'' \<in> set (determineOpenApiDependencies op doc) \<longleftrightarrow> od_schemas doc \<noteq> []) \<and>
   (fst (generateSkillFromOpenApi X doc options w) = Inr out \<longrightarrow>
      (\<forall>e \<in> set (openapi_index X doc options w).
         ''schemas/types'' \<in> set (ie_dependencies e) \<longleftrightarrow> od_schemas doc \<noteq> []))"
proof (intro conjI impI ballI)
  show types: "''schemas/types'' \<in> set (determineOpenApiDependencies op doc) \<longleftrightarrow>
      od_schemas doc \<noteq> []" for op
    by (cases "o_security op") (simp_all add: determineOpenApiDependencies_def)
  fix e
  assume "fst (generateSkillFromOpenApi X doc options w) = Inr out"
  then obtain fs index w' where
    "openapi_operations X options doc (od_operations doc) ([], []) w = (Inr (fs, index), w')"
    "so_capabilities out = fs" "openapi_index X doc options w = index"
    by (rule generateSkillFromOpenApi_Inr)
  then have "map ie_dependencies (openapi_index X doc options w) =
      map (\<lambda>op. determineOpenApiDependencies op doc) (od_operations doc)"
    using openapi_operations_result [of X options doc "od_operations doc" "[]" "[]" w fs index w']
    by simp
  moreover assume "e \<in> set (openapi_index X doc options w)"
  then have "ie_dependencies e \<in> set (map ie_dependencies (openapi_index X doc options w))"
    by simp
  ultimately obtain op' where "ie_dependencies e = determineOpenApiDependencies op' doc"
    by auto
  then show "''schemas/types'' \<in> set (ie_dependencies e) \<longleftrightarrow> od_schemas doc \<noteq> []"
    by (simp only: types)
qed

theorem openapi_schema_dependency_witness:
  "od_schemas distinct_doc \<noteq> [] \<and>
   ''schemas/types'' \<in> set (determineOpenApiDependencies (user_operation ''users_create'' None)
                              distinct_doc) \<and>
   fst (generateSkillFromOpenApi sample_externals distinct_doc plain_options ()) =
     Inr distinct_doc_output \<and>
   list_all (\<lambda>e. ''schemas/types'' \<in> set (ie_dependencies e))
     (openapi_index sample_externals distinct_doc plain_options ()) \<and>
   od_schemas colliding_doc = [] \<and>
   ''schemas/types'' \<notin> set (determineOpenApiDependencies (user_operation ''get_user'' None)
                              colliding_doc)"
proof -
  have full: "od_schemas distinct_doc \<noteq> []" and empty: "od_schemas colliding_doc = []"
    by (simp_all add: distinct_doc_def colliding_doc_def users_doc_def)
  from openapi_schema_dependency [of "user_operation ''users_create'' None" distinct_doc
      sample_externals plain_options "()" distinct_doc_output] distinct_doc_run full
  have "''schemas/types'' \<in> set (determineOpenApiDependencies
          (user_operation ''users_create'' None) distinct_doc)"
    and "list_all (\<lambda>e. ''schemas/types'' \<in> set (ie_dependencies e))
          (openapi_index sample_externals distinct_doc plain_options ())"
    by (simp_all add: list_all_iff)
  moreover from openapi_schema_dependency [of "user_operation ''get_user'' None" colliding_doc
      sample_externals plain_options "()" distinct_doc_output] empty
  have "''schemas/types'' \<notin> set (determineOpenApiDependencies
          (user_operation ''get_user'' None) colliding_doc)"
    by simp
  ultimately show ?thesis using full empty distinct_doc_run by simp
qed

subsection \<open>Determinism\<close>

lemma mapi_keywords_deterministic:
  "deterministic_provider options \<Longrightarrow>
   fst (mapi_keywords X options cap w) = fst (mapi_keywords X options cap w')"
  by (auto simp: deterministic_provider_def mapi_keywords_def Let_def split: option.splits)

lemma openapi_keywords_deterministic:
  "deterministic_provider options \<Longrightarrow>
   fst (openapi_keywords X options op w) = fst (openapi_keywords X options op w')"
  by (auto simp: deterministic_provider_def openapi_keywords_def split: option.splits)

lemma mapi_capabilities_deterministic:
  "deterministic_provider options \<Longrightarrow>
   fst (mapi_capabilities X options doc caps acc w) =
   fst (mapi_capabilities X options doc caps acc w')"
proof (induction caps arbitrary: acc w w')
  case Nil
  then show ?case by simp
next
  case (Cons cap caps)
  obtain capabilities index where acc: "acc = (capabilities, index)" by (cases acc)
  obtain k1 w1 where r1: "mapi_keywords X options cap w = (k1, w1)"
    by (cases "mapi_keywords X options cap w")
  obtain k2 w2 where r2: "mapi_keywords X options cap w' = (k2, w2)"
    by (cases "mapi_keywords X options cap w'")
  have k: "k1 = k2"
    using mapi_keywords_deterministic [OF Cons.prems, of X cap w w'] r1 r2 by simp
  show ?case
  proof (cases k1)
    case (Inl e)
    then show ?thesis using k r1 r2 by (simp add: acc Let_def)
  next
    case (Inr kws)
    then show ?thesis using k r1 r2 Cons.IH [OF Cons.prems] by (simp add: acc Let_def)
  qed
qed

lemma openapi_operations_deterministic:
  "deterministic_provider options \<Longrightarrow>
   fst (openapi_operations X options doc ops acc w) =
   fst (openapi_operations X options doc ops acc w')"
proof (induction ops arbitrary: acc w w')
  case Nil
  then show ?case by simp
next
  case (Cons op ops)
  obtain capabilities index where acc: "acc = (capabilities, index)" by (cases acc)
  obtain k1 w1 where r1: "openapi_keywords X options op w = (k1, w1)"
    by (cases "openapi_keywords X options op w")
  obtain k2 w2 where r2: "openapi_keywords X options op w' = (k2, w2)"
    by (cases "openapi_keywords X options op w'")
  have k: "k1 = k2"
    using openapi_keywords_deterministic [OF Cons.prems, of X op w w'] r1 r2 by simp
  show ?case
  proof (cases k1)
    case (Inl e)
    then show ?thesis using k r1 r2 by (simp add: acc Let_def)
  next
    case (Inr kws)
    then show ?thesis using k r1 r2 Cons.IH [OF Cons.prems] by (simp add: acc Let_def)
  qed
qed

text \<open>
  C9. For a fixed document and fixed options whose keyword provider is absent or
  deterministic, two runs of a generator, started in any two states of the outside world,
  return the same result: the same index body, the same common files and the same
  capability files (or the same rejection).
\<close>

theorem generation_deterministic:
  "deterministic_provider options \<Longrightarrow>
   fst (generateSkillFromMapi X doc options w) = fst (generateSkillFromMapi X doc options w') \<and>
   fst (generateSkillFromOpenApi X odoc options w) = fst (generateSkillFromOpenApi X odoc options w')"
proof -
  assume det: "deterministic_provider options"
  have m: "fst (generateSkillFromMapi X doc options v) =
      (case fst (mapi_capabilities X options doc (d_capabilities doc) ([], []) v) of
         Inl e \<Rightarrow> Inl e
       | Inr (capabilities, index) \<Rightarrow>
           Inr \<lparr>so_skillMd = generateSkillMd (or_else (apiName options) (d_title doc))
                  (d_description doc) (d_meta doc) index (map fst (mapi_common doc)),
                so_common = mapi_common doc, so_capabilities = capabilities\<rparr>)" for v
    by (cases "mapi_capabilities X options doc (d_capabilities doc) ([], []) v")
       (auto simp: generateSkillFromMapi_def Let_def split: sum.splits)
  have o: "fst (generateSkillFromOpenApi X odoc options v) =
      (case fst (openapi_operations X options odoc (od_operations odoc) ([], []) v) of
         Inl e \<Rightarrow> Inl e
       | Inr (capabilities, index) \<Rightarrow>
           Inr \<lparr>so_skillMd = generateSkillMd (or_else (apiName options) (od_title odoc))
                  (od_description odoc) (openapi_meta odoc) index
                  (map fst (openapi_common X odoc)),
                so_common = openapi_common X odoc, so_capabilities = capabilities\<rparr>)" for v
    by (cases "openapi_operations X options odoc (od_operations odoc) ([], []) v")
       (auto simp: generateSkillFromOpenApi_def Let_def split: sum.splits)
  show ?thesis
    unfolding m o
    using mapi_capabilities_deterministic [OF det, of X doc "d_capabilities doc" "([], [])" w w']
      openapi_operations_deterministic [OF det, of X odoc "od_operations odoc" "([], [])" w w']
    by simp
qed

theorem generation_deterministic_witness:
  "deterministic_provider counting_options \<and>
   fst (generateSkillFromMapi sample_externals sample_mapi_doc counting_options 0) =
   fst (generateSkillFromMapi sample_externals sample_mapi_doc counting_options 7) \<and>
   fst (generateSkillFromOpenApi sample_externals distinct_doc counting_options 0) =
   fst (generateSkillFromOpenApi sample_externals distinct_doc counting_options 7) \<and>
   snd (generateSkillFromMapi sample_externals sample_mapi_doc counting_options 0) = 1 \<and>
   snd (generateSkillFromMapi sample_externals sample_mapi_doc counting_options 7) = 8"
proof -
  have det: "deterministic_provider counting_options"
    by (simp add: deterministic_provider_def counting_options_def counting_generator_def)
  have "snd (generateSkillFromMapi sample_externals sample_mapi_doc counting_options w) = Suc w" for w
    by (simp add: generator_eval sample_mapi_doc_def counting_options_def)
       (simp add: sample_capability_def counting_generator_def)
  then have "snd (generateSkillFromMapi sample_externals sample_mapi_doc counting_options 0) = 1"
    and "snd (generateSkillFromMapi sample_externals sample_mapi_doc counting_options 7) = 8"
    by simp_all
  with generation_deterministic [OF det, of sample_externals sample_mapi_doc 0 7 distinct_doc] det
  show ?thesis by simp
qed

end
